theory Spec2Isabelle
  imports Main "HOL-Library.Word" "HOL-Library.Signed_Division" "HOL-Library.AList"
begin

section \<open>Numbers, panics and errors\<close>

text \<open>
  Go's \<open>int64\<close> is a 64-bit word read as two's complement. Every \<open>float64\<close> of the two
  collectors is the conversion of an integer (a length, an \<open>int64\<close>, the constants 0 and 1,
  a counter that is only ever incremented), so a \<open>float64\<close> is modelled by the integer that
  is converted; the rounding of the conversion itself is not modelled.
\<close>

type_synonym int64 = "64 word"
type_synonym float64 = int

datatype panic =
    IndexOutOfRange nat nat
  | DivideByZero
  | InconsistentLabelCardinality nat nat

text \<open>\<open>xs[i]\<close> on a slice: a run-time panic when the index is out of range.\<close>

definition index :: "'a list \<Rightarrow> nat \<Rightarrow> panic + 'a" where
  "index xs i = (if i < length xs then Inr (xs ! i) else Inl (IndexOutOfRange i (length xs)))"

text \<open>\<open>a / b\<close> on \<open>int64\<close>: truncated towards zero, wrapping, a panic when \<open>b\<close> is zero.\<close>

definition div64 :: "int64 \<Rightarrow> int64 \<Rightarrow> panic + int64" where
  "div64 a b = (if b = 0 then Inl DivideByZero else Inr (word_of_int (sint a sdiv sint b)))"

text \<open>The \<open>error\<close> values built by \<open>getAndParseURL\<close>, and the one of \<open>Body.Close\<close>.\<close>

datatype error =
    GetFailed string
  | RequestFailed int
  | DecodeError string
  | CloseError string

datatype LogEntry = Warn string error

section \<open>Payloads\<close>

text \<open>
  Modelled from the spec: the response structs \<open>SnapshotStatDataResponse\<close>,
  \<open>SnapshotStatsResponse\<close>, \<open>SnapshotRepositoriesResponse\<close> and
  \<open>IndicesSettingsResponse\<close> are declared outside the two source files. The records below
  hold the fields the code reads: timestamps in epoch milliseconds and shard counts as
  \<open>int64\<close>, the state and version labels as strings, the index and failure sequences (only
  their lengths are read). A nil slice and an empty slice are both \<open>[]\<close>.
\<close>

record ShardCounts =
  Total :: int64
  Failed :: int64
  Successful :: int64

record SnapshotStatDataResponse =
  Version :: string
  Indices :: "string list"
  State :: string
  StartTimeInMillis :: int64
  EndTimeInMillis :: int64
  Failures :: "unit list"
  Shards :: ShardCounts

record SnapshotStatsResponse =
  Snapshots :: "SnapshotStatDataResponse list"

text \<open>
  \<open>SnapshotRepositoriesResponse\<close> is a Go map of which only the keys are read: the list of
  its keys, in the order the \<open>range\<close> loop visits them. The keys of a Go map are distinct.
\<close>

type_synonym SnapshotRepositoriesResponse = "string list"

record Blocks =
  ReadOnly :: string

record IndexInfo =
  Blocks :: Blocks

record Settings =
  IndexInfo :: IndexInfo

record Index =
  Settings :: Settings

type_synonym IndicesSettingsResponse = "(string \<times> Index) list"

section \<open>The HTTP client and the metrics library\<close>

text \<open>
  What \<open>client.Get\<close> gives for one request: a transport error, or a response with its
  status code, the result \<open>json.NewDecoder(res.Body).Decode\<close> has on the target type
  (\<open>Inl\<close> the decode error) and the result of \<open>res.Body.Close\<close>.
\<close>

record 'a Response =
  StatusCode :: int
  Decode :: "string + 'a"
  Close :: "string option"

type_synonym 'a GetResult = "string + 'a Response"

text \<open>
  The answers of the client during one cycle: to the request of \<open>/_snapshot\<close> and, for each
  repository name, to the request of \<open>/_snapshot/<repository>/_all\<close>.
\<close>

record SnapshotsClient =
  getRepositories :: "SnapshotRepositoriesResponse GetResult"
  getSnapshots :: "string \<Rightarrow> SnapshotStatsResponse GetResult"

datatype ValueType = CounterValue | GaugeValue | UntypedValue

record Desc =
  fqName :: string
  helpText :: string
  variableLabels :: "string list"
  constLabels :: "(string \<times> string) list"

definition NewDesc :: "string \<Rightarrow> string \<Rightarrow> string list \<Rightarrow> (string \<times> string) list \<Rightarrow> Desc" where
  "NewDesc name h labels cl =
     \<lparr>fqName = name, helpText = h, variableLabels = labels, constLabels = cl\<rparr>"

definition BuildFQName :: "string \<Rightarrow> string \<Rightarrow> string \<Rightarrow> string" where
  "BuildFQName ns subsystem name =
     (if name = [] then []
      else if ns \<noteq> [] \<and> subsystem \<noteq> [] then ns @ ''_'' @ subsystem @ ''_'' @ name
      else if ns \<noteq> [] then ns @ ''_'' @ name
      else if subsystem \<noteq> [] then subsystem @ ''_'' @ name
      else name)"

text \<open>A sample as it is sent on the channel of \<open>Collect\<close>.\<close>

record Metric =
  mDesc :: Desc
  mType :: ValueType
  mValue :: float64
  mLabelValues :: "string list"

text \<open>
  \<open>prometheus.MustNewConstMetric\<close> panics when the number of label values is not the number
  of variable labels of the descriptor.
\<close>

definition MustNewConstMetric ::
  "Desc \<Rightarrow> ValueType \<Rightarrow> float64 \<Rightarrow> string list \<Rightarrow> panic + Metric" where
  "MustNewConstMetric d t v lvs =
     (if length lvs = length (variableLabels d)
      then Inr \<lparr>mDesc = d, mType = t, mValue = v, mLabelValues = lvs\<rparr>
      else Inl (InconsistentLabelCardinality (length (variableLabels d)) (length lvs)))"

text \<open>A gauge or a counter without variable labels: its descriptor and its current value.\<close>

record Gauge =
  gDesc :: Desc
  gVal :: float64

type_synonym Counter = Gauge

definition NewGauge :: "string \<Rightarrow> string \<Rightarrow> (string \<times> string) list \<Rightarrow> Gauge" where
  "NewGauge name h cl = \<lparr>gDesc = NewDesc name h [] cl, gVal = 0\<rparr>"

definition Set_gauge :: "Gauge \<Rightarrow> float64 \<Rightarrow> Gauge" where
  "Set_gauge g v = g\<lparr>gVal := v\<rparr>"

definition Inc :: "Gauge \<Rightarrow> Gauge" where
  "Inc g = g\<lparr>gVal := gVal g + 1\<rparr>"

text \<open>What the registry reads when the gauge or counter itself is sent on the channel.\<close>

definition sample :: "ValueType \<Rightarrow> Gauge \<Rightarrow> Metric" where
  "sample t g = \<lparr>mDesc = gDesc g, mType = t, mValue = gVal g, mLabelValues = []\<rparr>"

section \<open>The snapshots collector\<close>

record snapshotMetric =
  Type :: ValueType
  Desc :: Desc
  Value :: "SnapshotStatDataResponse \<Rightarrow> panic + float64"
  Labels :: "string \<Rightarrow> SnapshotStatDataResponse \<Rightarrow> string list"

record repositoryMetric =
  Type :: ValueType
  Desc :: Desc
  Value :: "SnapshotStatsResponse \<Rightarrow> panic + float64"
  Labels :: "string \<Rightarrow> string list"

definition defaultSnapshotLabels :: "string list" where
  "defaultSnapshotLabels = [''repository'', ''state'', ''version'']"

definition defaultSnapshotLabelValues :: "string \<Rightarrow> SnapshotStatDataResponse \<Rightarrow> string list" where
  "defaultSnapshotLabelValues repositoryName snapshotStats =
     [repositoryName, State snapshotStats, Version snapshotStats]"

definition defaultSnapshotRepositoryLabels :: "string list" where
  "defaultSnapshotRepositoryLabels = [''repository'']"

definition defaultSnapshotRepositoryLabelValues :: "string \<Rightarrow> string list" where
  "defaultSnapshotRepositoryLabelValues repositoryName = [repositoryName]"

record Snapshots =
  logger :: "LogEntry list"
  url :: string
  up :: Gauge
  totalScrapes :: Counter
  jsonParseFailures :: Counter
  snapshotMetrics :: "snapshotMetric list"
  repositoryMetrics :: "repositoryMetric list"

text \<open>The value functions of the table \<open>snapshotMetrics\<close>, in the order of the table.\<close>

definition snapshot_number_of_indices :: "SnapshotStatDataResponse \<Rightarrow> panic + float64" where
  "snapshot_number_of_indices snapshotStats = Inr (int (length (Indices snapshotStats)))"

definition snapshot_start_time_timestamp :: "SnapshotStatDataResponse \<Rightarrow> panic + float64" where
  "snapshot_start_time_timestamp snapshotStats =
     (case div64 (StartTimeInMillis snapshotStats) 1000 of
        Inl p \<Rightarrow> Inl p
      | Inr q \<Rightarrow> Inr (sint q))"

definition snapshot_end_time_timestamp :: "SnapshotStatDataResponse \<Rightarrow> panic + float64" where
  "snapshot_end_time_timestamp snapshotStats =
     (case div64 (EndTimeInMillis snapshotStats) 1000 of
        Inl p \<Rightarrow> Inl p
      | Inr q \<Rightarrow> Inr (sint q))"

definition snapshot_number_of_failures :: "SnapshotStatDataResponse \<Rightarrow> panic + float64" where
  "snapshot_number_of_failures snapshotStats = Inr (int (length (Failures snapshotStats)))"

definition snapshot_total_shards :: "SnapshotStatDataResponse \<Rightarrow> panic + float64" where
  "snapshot_total_shards snapshotStats = Inr (sint (Total (Shards snapshotStats)))"

definition snapshot_failed_shards :: "SnapshotStatDataResponse \<Rightarrow> panic + float64" where
  "snapshot_failed_shards snapshotStats = Inr (sint (Failed (Shards snapshotStats)))"

definition snapshot_successful_shards :: "SnapshotStatDataResponse \<Rightarrow> panic + float64" where
  "snapshot_successful_shards snapshotStats = Inr (sint (Successful (Shards snapshotStats)))"

text \<open>The value functions of the table \<open>repositoryMetrics\<close>.\<close>

definition number_of_snapshots :: "SnapshotStatsResponse \<Rightarrow> panic + float64" where
  "number_of_snapshots snapshotsStats = Inr (int (length (Snapshots snapshotsStats)))"

definition oldest_snapshot_timestamp :: "SnapshotStatsResponse \<Rightarrow> panic + float64" where
  "oldest_snapshot_timestamp snapshotsStats =
     (if length (Snapshots snapshotsStats) = 0 then Inr 0
      else (case index (Snapshots snapshotsStats) 0 of
              Inl p \<Rightarrow> Inl p
            | Inr first \<Rightarrow>
                (case div64 (StartTimeInMillis first) 1000 of
                   Inl p \<Rightarrow> Inl p
                 | Inr q \<Rightarrow> Inr (sint q))))"

text \<open>
  \<open>NewSnapshots\<close>. The package constant \<open>namespace\<close> and the result of the helper
  \<open>constLabelsFromURL\<close> are declared outside the two source files and are parameters here.
  The logger is the list of the entries written so far. The HTTP client is not a field: its
  answers are an argument of the functions that send requests.
\<close>

definition NewSnapshots ::
  "string \<Rightarrow> (string \<times> string) list \<Rightarrow> LogEntry list \<Rightarrow> string \<Rightarrow> Snapshots" where
  "NewSnapshots namespace cl lg u =
     \<lparr>logger = lg,
      url = u,
      up = NewGauge (BuildFQName namespace ''snapshot_stats'' ''up'')
             ''Was the last scrape of the ElasticSearch snapshots endpoint successful.''
             cl,
      totalScrapes = NewGauge (BuildFQName namespace ''snapshot_stats'' ''total_scrapes'')
             ''Current total ElasticSearch snapshots scrapes.'' cl,
      jsonParseFailures =
           NewGauge (BuildFQName namespace ''snapshot_stats'' ''json_parse_failures'')
             ''Number of errors while parsing JSON.'' cl,
      snapshotMetrics =
        [\<lparr>snapshotMetric.Type = GaugeValue,
          snapshotMetric.Desc = NewDesc (BuildFQName namespace ''snapshot_stats'' ''snapshot_number_of_indices'')
                   ''Number of indices in the last snapshot'' defaultSnapshotLabels cl,
          snapshotMetric.Value = snapshot_number_of_indices,
          snapshotMetric.Labels = defaultSnapshotLabelValues\<rparr>,
         \<lparr>snapshotMetric.Type = GaugeValue,
          snapshotMetric.Desc = NewDesc (BuildFQName namespace ''snapshot_stats'' ''snapshot_start_time_timestamp'')
                   ''Last snapshot start timestamp'' defaultSnapshotLabels cl,
          snapshotMetric.Value = snapshot_start_time_timestamp,
          snapshotMetric.Labels = defaultSnapshotLabelValues\<rparr>,
         \<lparr>snapshotMetric.Type = GaugeValue,
          snapshotMetric.Desc = NewDesc (BuildFQName namespace ''snapshot_stats'' ''snapshot_end_time_timestamp'')
                   ''Last snapshot end timestamp'' defaultSnapshotLabels cl,
          snapshotMetric.Value = snapshot_end_time_timestamp,
          snapshotMetric.Labels = defaultSnapshotLabelValues\<rparr>,
         \<lparr>snapshotMetric.Type = GaugeValue,
          snapshotMetric.Desc = NewDesc (BuildFQName namespace ''snapshot_stats'' ''snapshot_number_of_failures'')
                   ''Last snapshot number of failures'' defaultSnapshotLabels cl,
          snapshotMetric.Value = snapshot_number_of_failures,
          snapshotMetric.Labels = defaultSnapshotLabelValues\<rparr>,
         \<lparr>snapshotMetric.Type = GaugeValue,
          snapshotMetric.Desc = NewDesc (BuildFQName namespace ''snapshot_stats'' ''snapshot_total_shards'')
                   ''Last snapshot total shards'' defaultSnapshotLabels cl,
          snapshotMetric.Value = snapshot_total_shards,
          snapshotMetric.Labels = defaultSnapshotLabelValues\<rparr>,
         \<lparr>snapshotMetric.Type = GaugeValue,
          snapshotMetric.Desc = NewDesc (BuildFQName namespace ''snapshot_stats'' ''snapshot_failed_shards'')
                   ''Last snapshot failed shards'' defaultSnapshotLabels cl,
          snapshotMetric.Value = snapshot_failed_shards,
          snapshotMetric.Labels = defaultSnapshotLabelValues\<rparr>,
         \<lparr>snapshotMetric.Type = GaugeValue,
          snapshotMetric.Desc = NewDesc (BuildFQName namespace ''snapshot_stats'' ''snapshot_successful_shards'')
                   ''Last snapshot successful shards'' defaultSnapshotLabels cl,
          snapshotMetric.Value = snapshot_successful_shards,
          snapshotMetric.Labels = defaultSnapshotLabelValues\<rparr>],
      repositoryMetrics =
        [\<lparr>Type = GaugeValue,
          Desc = NewDesc (BuildFQName namespace ''snapshot_stats'' ''number_of_snapshots'')
                   ''Number of snapshots in a repository''
                   defaultSnapshotRepositoryLabels cl,
          Value = number_of_snapshots,
          Labels = defaultSnapshotRepositoryLabelValues\<rparr>,
         \<lparr>Type = GaugeValue,
          Desc = NewDesc (BuildFQName namespace ''snapshot_stats'' ''oldest_snapshot_timestamp'')
                   ''Timestamp of the oldest snapshot''
                   defaultSnapshotRepositoryLabels cl,
          Value = oldest_snapshot_timestamp,
          Labels = defaultSnapshotRepositoryLabelValues\<rparr>]\<rparr>"

text \<open>\<open>Describe\<close>: the descriptors sent on the channel, in order.\<close>

definition Snapshots_Describe :: "Snapshots \<Rightarrow> Desc list" where
  "Snapshots_Describe s =
     map snapshotMetric.Desc (snapshotMetrics s)
     @ [gDesc (up s), gDesc (totalScrapes s), gDesc (jsonParseFailures s)]"

text \<open>
  The deferred function of \<open>getAndParseURL\<close>: the body is closed on every path after a
  successful \<open>Get\<close>, and a failure to close is logged.
\<close>

definition Snapshots_closeBody :: "Snapshots \<Rightarrow> 'a Response \<Rightarrow> Snapshots" where
  "Snapshots_closeBody s res =
     (case Close res of
        None \<Rightarrow> s
      | Some err \<Rightarrow>
          s\<lparr>logger := logger s @ [Warn ''failed to close http.Client'' (CloseError err)]\<rparr>)"

definition Snapshots_getAndParseURL ::
  "Snapshots \<Rightarrow> 'a GetResult \<Rightarrow> Snapshots \<times> (error + 'a)" where
  "Snapshots_getAndParseURL s got =
     (case got of
        Inl err \<Rightarrow> (s, Inl (GetFailed err))
      | Inr res \<Rightarrow>
          if StatusCode res \<noteq> 200
          then (Snapshots_closeBody s res, Inl (RequestFailed (StatusCode res)))
          else (case Decode res of
                  Inl err \<Rightarrow>
                    (Snapshots_closeBody (s\<lparr>jsonParseFailures := Inc (jsonParseFailures s)\<rparr>) res,
                     Inl (DecodeError err))
                | Inr data \<Rightarrow> (Snapshots_closeBody s res, Inr data)))"

text \<open>
  The loop of \<open>fetchAndDecodeSnapshotsStats\<close> over the repositories: a repository whose
  request fails is skipped by \<open>continue\<close>, the others are stored in the map \<open>mssr\<close>
  (an association list; \<open>mssr[repository] = ssr\<close> is \<open>AList.update\<close>).
\<close>

fun fetchRepositories ::
  "Snapshots \<Rightarrow> (string \<Rightarrow> SnapshotStatsResponse GetResult) \<Rightarrow> string list
     \<Rightarrow> (string \<times> SnapshotStatsResponse) list
     \<Rightarrow> Snapshots \<times> (string \<times> SnapshotStatsResponse) list" where
  "fetchRepositories s get [] mssr = (s, mssr)"
| "fetchRepositories s get (repository # srr) mssr =
     (case Snapshots_getAndParseURL s (get repository) of
        (s', Inl err) \<Rightarrow> fetchRepositories s' get srr mssr
      | (s', Inr ssr) \<Rightarrow> fetchRepositories s' get srr (AList.update repository ssr mssr))"

definition fetchAndDecodeSnapshotsStats ::
  "Snapshots \<Rightarrow> SnapshotsClient
     \<Rightarrow> Snapshots \<times> (error + (string \<times> SnapshotStatsResponse) list)" where
  "fetchAndDecodeSnapshotsStats s client =
     (case Snapshots_getAndParseURL s (getRepositories client) of
        (s', Inl err) \<Rightarrow> (s', Inl err)
      | (s', Inr srr) \<Rightarrow>
          (case fetchRepositories s' (getSnapshots client) srr [] of
             (s'', mssr) \<Rightarrow> (s'', Inr mssr)))"

text \<open>
  The two inner loops of \<open>Collect\<close>. The channel is the list of the samples sent so far; a
  panic stops the loop and leaves what was sent.
\<close>

fun sendRepositoryMetrics ::
  "repositoryMetric list \<Rightarrow> string \<Rightarrow> SnapshotStatsResponse \<Rightarrow> Metric list
     \<Rightarrow> Metric list \<times> panic option" where
  "sendRepositoryMetrics [] repositoryName snapshotStats ch = (ch, None)"
| "sendRepositoryMetrics (metric # metrics) repositoryName snapshotStats ch =
     (case repositoryMetric.Value metric snapshotStats of
        Inl p \<Rightarrow> (ch, Some p)
      | Inr v \<Rightarrow>
          (case MustNewConstMetric (repositoryMetric.Desc metric) (repositoryMetric.Type metric)
                  v (repositoryMetric.Labels metric repositoryName) of
             Inl p \<Rightarrow> (ch, Some p)
           | Inr m \<Rightarrow> sendRepositoryMetrics metrics repositoryName snapshotStats (ch @ [m])))"

fun sendSnapshotMetrics ::
  "snapshotMetric list \<Rightarrow> string \<Rightarrow> SnapshotStatDataResponse \<Rightarrow> Metric list
     \<Rightarrow> Metric list \<times> panic option" where
  "sendSnapshotMetrics [] repositoryName lastSnapshot ch = (ch, None)"
| "sendSnapshotMetrics (metric # metrics) repositoryName lastSnapshot ch =
     (case snapshotMetric.Value metric lastSnapshot of
        Inl p \<Rightarrow> (ch, Some p)
      | Inr v \<Rightarrow>
          (case MustNewConstMetric (snapshotMetric.Desc metric) (snapshotMetric.Type metric)
                  v (snapshotMetric.Labels metric repositoryName lastSnapshot) of
             Inl p \<Rightarrow> (ch, Some p)
           | Inr m \<Rightarrow> sendSnapshotMetrics metrics repositoryName lastSnapshot (ch @ [m])))"

text \<open>
  The outer loop of \<open>Collect\<close> over the map of the fetched repositories. Go leaves the
  order in which \<open>range\<close> visits a map unspecified; the order of the association list
  stands for the order of one run.
\<close>

fun sendSnapshotsStats ::
  "Snapshots \<Rightarrow> (string \<times> SnapshotStatsResponse) list \<Rightarrow> Metric list
     \<Rightarrow> Metric list \<times> panic option" where
  "sendSnapshotsStats s [] ch = (ch, None)"
| "sendSnapshotsStats s ((repositoryName, snapshotStats) # rest) ch =
     (case sendRepositoryMetrics (repositoryMetrics s) repositoryName snapshotStats ch of
        (ch1, Some p) \<Rightarrow> (ch1, Some p)
      | (ch1, None) \<Rightarrow>
          if length (Snapshots snapshotStats) = 0 then sendSnapshotsStats s rest ch1
          else (case index (Snapshots snapshotStats) (length (Snapshots snapshotStats) - 1) of
                  Inl p \<Rightarrow> (ch1, Some p)
                | Inr lastSnapshot \<Rightarrow>
                    (case sendSnapshotMetrics (snapshotMetrics s) repositoryName lastSnapshot ch1 of
                       (ch2, Some p) \<Rightarrow> (ch2, Some p)
                     | (ch2, None) \<Rightarrow> sendSnapshotsStats s rest ch2)))"

text \<open>
  \<open>Collect\<close>: the new state of the collector, the samples sent on the channel and the panic
  that ended the call, if any. The deferred function sends the three bookkeeping metrics
  when the function returns, on every path.
\<close>

definition Snapshots_Collect ::
  "Snapshots \<Rightarrow> SnapshotsClient \<Rightarrow> Snapshots \<times> Metric list \<times> panic option" where
  "Snapshots_Collect s0 client =
     (case (case fetchAndDecodeSnapshotsStats (s0\<lparr>totalScrapes := Inc (totalScrapes s0)\<rparr>) client of
              (s1, Inl err) \<Rightarrow>
                (s1\<lparr>up := Set_gauge (up s1) 0,
                    logger := logger s1
                      @ [Warn ''failed to fetch and decode snapshot stats'' err]\<rparr>,
                 [], None)
            | (s1, Inr snapshotsStatsResp) \<Rightarrow>
                (case sendSnapshotsStats s1 snapshotsStatsResp [] of
                   (ch, p) \<Rightarrow> (s1\<lparr>up := Set_gauge (up s1) 1\<rparr>, ch, p))) of
        (s, ch, p) \<Rightarrow>
          (s,
           ch @ [sample GaugeValue (up s), sample CounterValue (totalScrapes s),
                 sample CounterValue (jsonParseFailures s)],
           p))"

section \<open>The indices settings collector\<close>

text \<open>
  A \<open>GaugeVec\<close> or \<open>CounterVec\<close>: its descriptor and its children, one for each list of
  label values used so far. \<open>WithLabelValues\<close> returns the child of the label values and
  creates it, with value 0, when it does not exist; \<open>Collect\<close> on the vector sends one
  sample for each child that exists.
\<close>

record Vec =
  vDesc :: Desc
  children :: "(string list \<times> float64) list"

definition NewVec :: "string \<Rightarrow> string \<Rightarrow> string list \<Rightarrow> Vec" where
  "NewVec name h labels = \<lparr>vDesc = NewDesc name h labels [], children = []\<rparr>"

definition WithLabelValues :: "Vec \<Rightarrow> string list \<Rightarrow> Vec" where
  "WithLabelValues v lvs =
     (case map_of (children v) lvs of
        Some x \<Rightarrow> v
      | None \<Rightarrow> v\<lparr>children := children v @ [(lvs, 0)]\<rparr>)"

definition childValue :: "Vec \<Rightarrow> string list \<Rightarrow> float64" where
  "childValue v lvs = (case map_of (children v) lvs of Some x \<Rightarrow> x | None \<Rightarrow> 0)"

text \<open>\<open>v.WithLabelValues(lvs...).Set(x)\<close> and \<open>v.WithLabelValues(lvs...).Inc()\<close>.\<close>

definition Set_child :: "Vec \<Rightarrow> string list \<Rightarrow> float64 \<Rightarrow> Vec" where
  "Set_child v lvs x = v\<lparr>children := AList.update lvs x (children v)\<rparr>"

definition Inc_child :: "Vec \<Rightarrow> string list \<Rightarrow> Vec" where
  "Inc_child v lvs = Set_child v lvs (childValue v lvs + 1)"

definition Vec_Collect :: "ValueType \<Rightarrow> Vec \<Rightarrow> Metric list" where
  "Vec_Collect t v =
     map (\<lambda>(lvs, x). \<lparr>mDesc = vDesc v, mType = t, mValue = x, mLabelValues = lvs\<rparr>)
       (children v)"

record IndicesSettings =
  logger :: "LogEntry list"
  url :: string
  up :: Vec
  readOnlyIndices :: Vec
  totalScrapes :: Vec
  jsonParseFailures :: Vec

definition NewIndicesSettings :: "string \<Rightarrow> LogEntry list \<Rightarrow> string \<Rightarrow> IndicesSettings" where
  "NewIndicesSettings namespace lg u =
     \<lparr>logger = lg,
      url = u,
      up = NewVec (BuildFQName namespace ''indices_settings_stats'' ''up'')
             ''Was the last scrape of the ElasticSearch Indices Settings endpoint successful.''
             [''url''],
      readOnlyIndices =
           NewVec (BuildFQName namespace ''indices_settings_stats'' ''read_only_indices'')
             ''Current number of read only indices within cluster'' [''url''],
      totalScrapes = NewVec (BuildFQName namespace ''indices_settings_stats'' ''total_scrapes'')
             ''Current total ElasticSearch Indices Settings scrapes.'' [''url''],
      jsonParseFailures =
           NewVec (BuildFQName namespace ''indices_settings_stats'' ''json_parse_failures'')
             ''Number of errors while parsing JSON.'' [''url'']\<rparr>"

text \<open>
  \<open>Describe\<close>: the descriptors sent on the channel, in order. Each \<open>WithLabelValues\<close>
  creates the child of the collector's URL when it does not exist yet.
\<close>

definition IndicesSettings_Describe :: "IndicesSettings \<Rightarrow> IndicesSettings \<times> Desc list" where
  "IndicesSettings_Describe cs =
     (cs\<lparr>up := WithLabelValues (up cs) [url cs],
         totalScrapes := WithLabelValues (totalScrapes cs) [url cs],
         readOnlyIndices := WithLabelValues (readOnlyIndices cs) [url cs],
         jsonParseFailures := WithLabelValues (jsonParseFailures cs) [url cs]\<rparr>,
      [vDesc (up cs), vDesc (totalScrapes cs), vDesc (readOnlyIndices cs),
       vDesc (jsonParseFailures cs)])"

definition IndicesSettings_closeBody :: "IndicesSettings \<Rightarrow> 'a Response \<Rightarrow> IndicesSettings" where
  "IndicesSettings_closeBody cs res =
     (case Close res of
        None \<Rightarrow> cs
      | Some err \<Rightarrow>
          cs\<lparr>logger := logger cs @ [Warn ''failed to close http.Client'' (CloseError err)]\<rparr>)"

definition IndicesSettings_getAndParseURL ::
  "IndicesSettings \<Rightarrow> 'a GetResult \<Rightarrow> IndicesSettings \<times> (error + 'a)" where
  "IndicesSettings_getAndParseURL cs got =
     (case got of
        Inl err \<Rightarrow> (cs, Inl (GetFailed err))
      | Inr res \<Rightarrow>
          if StatusCode res \<noteq> 200
          then (IndicesSettings_closeBody cs res, Inl (RequestFailed (StatusCode res)))
          else (case Decode res of
                  Inl err \<Rightarrow>
                    (IndicesSettings_closeBody
                       (cs\<lparr>jsonParseFailures := Inc_child (jsonParseFailures cs) [url cs]\<rparr>) res,
                     Inl (DecodeError err))
                | Inr data \<Rightarrow> (IndicesSettings_closeBody cs res, Inr data)))"

definition fetchAndDecodeIndicesSettings ::
  "IndicesSettings \<Rightarrow> IndicesSettingsResponse GetResult
     \<Rightarrow> IndicesSettings \<times> (error + IndicesSettingsResponse)" where
  "fetchAndDecodeIndicesSettings cs got =
     (case IndicesSettings_getAndParseURL cs got of
        (cs', Inl err) \<Rightarrow> (cs', Inl err)
      | (cs', Inr asr) \<Rightarrow> (cs', Inr asr))"

text \<open>The loop of \<open>Collect\<close> that counts the read-only indices, from the counter \<open>c\<close>.\<close>

fun countReadOnly :: "IndicesSettingsResponse \<Rightarrow> int \<Rightarrow> int" where
  "countReadOnly [] c = c"
| "countReadOnly ((name, v) # asr) c =
     (if ReadOnly (Blocks (IndexInfo (Settings v))) = ''true''
      then countReadOnly asr (c + 1)
      else countReadOnly asr c)"

text \<open>
  \<open>Collect\<close>: the new state of the collector and the samples sent on the channel. There is
  no deferred function: the path of a failed fetch returns before anything is sent.
\<close>

definition IndicesSettings_Collect ::
  "IndicesSettings \<Rightarrow> IndicesSettingsResponse GetResult \<Rightarrow> IndicesSettings \<times> Metric list" where
  "IndicesSettings_Collect cs0 got =
     (case fetchAndDecodeIndicesSettings
             (cs0\<lparr>totalScrapes := Inc_child (totalScrapes cs0) [url cs0]\<rparr>) got of
        (cs1, Inl err) \<Rightarrow>
          (cs1\<lparr>readOnlyIndices := Set_child (readOnlyIndices cs1) [url cs1] 0,
               up := Set_child (up cs1) [url cs1] 0,
               logger := logger cs1
                 @ [Warn ''failed to fetch and decode cluster settings stats'' err]\<rparr>,
           [])
      | (cs1, Inr asr) \<Rightarrow>
          (case cs1\<lparr>up := Set_child (up cs1) [url cs1] 1,
                    readOnlyIndices :=
                      Set_child (readOnlyIndices cs1) [url cs1] (countReadOnly asr 0)\<rparr> of
             cs2 \<Rightarrow>
               (cs2,
                Vec_Collect GaugeValue (up cs2) @ Vec_Collect CounterValue (totalScrapes cs2)
                @ Vec_Collect CounterValue (jsonParseFailures cs2)
                @ Vec_Collect GaugeValue (readOnlyIndices cs2))))"

section \<open>Notions of the specification\<close>

text \<open>
  A fetch succeeds when the request is answered with status 200 and a body that decodes;
  \<open>fetched\<close> is the payload of a successful fetch. A decode failure is an answer with
  status 200 whose body does not decode.
\<close>

definition fetched :: "'a GetResult \<Rightarrow> 'a option" where
  "fetched got =
     (case got of
        Inl err \<Rightarrow> None
      | Inr res \<Rightarrow>
          if StatusCode res = 200
          then (case Decode res of Inl err \<Rightarrow> None | Inr d \<Rightarrow> Some d)
          else None)"

definition decodeFailed :: "'a GetResult \<Rightarrow> bool" where
  "decodeFailed got =
     (case got of Inl err \<Rightarrow> False | Inr res \<Rightarrow> StatusCode res = 200 \<and> isl (Decode res))"

text \<open>The log entries of one request: only a failure to close the body is logged.\<close>

definition closeWarnings :: "'a GetResult \<Rightarrow> LogEntry list" where
  "closeWarnings got =
     (case got of
        Inl err \<Rightarrow> []
      | Inr res \<Rightarrow>
          (case Close res of
             None \<Rightarrow> []
           | Some err \<Rightarrow> [Warn ''failed to close http.Client'' (CloseError err)]))"

text \<open>
  The repositories whose detail fetch succeeds, with their payloads, in the order of the
  discovery output.
\<close>

definition fetchedRepositories ::
  "(string \<Rightarrow> SnapshotStatsResponse GetResult) \<Rightarrow> string list
     \<Rightarrow> (string \<times> SnapshotStatsResponse) list" where
  "fetchedRepositories get srr =
     List.map_filter (\<lambda>r. map_option (Pair r) (fetched (get r))) srr"

text \<open>The number of decode failures of one cycle of the snapshots collector.\<close>

definition Snapshots_decodeFailures :: "SnapshotsClient \<Rightarrow> nat" where
  "Snapshots_decodeFailures client =
     (if decodeFailed (getRepositories client) then 1
      else (case fetched (getRepositories client) of
              None \<Rightarrow> 0
            | Some srr \<Rightarrow> length (filter (\<lambda>r. decodeFailed (getSnapshots client r)) srr)))"

text \<open>The sample one descriptor gives for one payload.\<close>

definition repositorySample ::
  "repositoryMetric \<Rightarrow> string \<Rightarrow> SnapshotStatsResponse \<Rightarrow> panic + Metric" where
  "repositorySample metric repositoryName snapshotStats =
     (case repositoryMetric.Value metric snapshotStats of
        Inl p \<Rightarrow> Inl p
      | Inr v \<Rightarrow>
          MustNewConstMetric (repositoryMetric.Desc metric) (repositoryMetric.Type metric) v
            (repositoryMetric.Labels metric repositoryName))"

definition snapshotSample ::
  "snapshotMetric \<Rightarrow> string \<Rightarrow> SnapshotStatDataResponse \<Rightarrow> panic + Metric" where
  "snapshotSample metric repositoryName snapshot =
     (case snapshotMetric.Value metric snapshot of
        Inl p \<Rightarrow> Inl p
      | Inr v \<Rightarrow>
          MustNewConstMetric (snapshotMetric.Desc metric) (snapshotMetric.Type metric) v
            (snapshotMetric.Labels metric repositoryName snapshot))"

text \<open>
  The samples of one repository: every per-repository descriptor on the payload, then, when
  the payload has a snapshot, every per-snapshot descriptor on its last snapshot.
\<close>

definition entitySamples ::
  "Snapshots \<Rightarrow> string \<times> SnapshotStatsResponse \<Rightarrow> (panic + Metric) list" where
  "entitySamples s e =
     map (\<lambda>metric. repositorySample metric (fst e) (snd e)) (Snapshots.repositoryMetrics s)
     @ (if Snapshots (snd e) = [] then []
        else map (\<lambda>metric. snapshotSample metric (fst e) (last (Snapshots (snd e))))
               (Snapshots.snapshotMetrics s))"

text \<open>The three bookkeeping samples of a state of the snapshots collector.\<close>

definition bookkeeping :: "Snapshots \<Rightarrow> Metric list" where
  "bookkeeping s =
     [sample GaugeValue (Snapshots.up s), sample CounterValue (Snapshots.totalScrapes s),
      sample CounterValue (Snapshots.jsonParseFailures s)]"

text \<open>The value a sample has for a label name of its descriptor.\<close>

definition labelValue :: "Metric \<Rightarrow> string \<Rightarrow> string option" where
  "labelValue m l = map_of (zip (variableLabels (mDesc m)) (mLabelValues m)) l"

text \<open>A sequence of cycles, each with the answers its requests get.\<close>

definition Snapshots_cycles :: "Snapshots \<Rightarrow> SnapshotsClient list \<Rightarrow> Snapshots" where
  "Snapshots_cycles s clients = foldl (\<lambda>s client. fst (Snapshots_Collect s client)) s clients"

definition IndicesSettings_cycles ::
  "IndicesSettings \<Rightarrow> IndicesSettingsResponse GetResult list \<Rightarrow> IndicesSettings" where
  "IndicesSettings_cycles cs gots =
     foldl (\<lambda>cs got. fst (IndicesSettings_Collect cs got)) cs gots"

text \<open>Truncation towards zero of the quotient by 1000.\<close>

definition truncSeconds :: "int \<Rightarrow> int" where
  "truncSeconds t = sgn t * (\<bar>t\<bar> div 1000)"

section \<open>Example inputs\<close>

text \<open>
  A cluster with four repositories: \<open>a\<close> holds two snapshots, the request for \<open>b\<close> is
  answered with status 500, \<open>c\<close> holds no snapshot, and the body for \<open>d\<close> does not
  decode.
\<close>

definition exampleSnapshot :: "int64 \<Rightarrow> string \<Rightarrow> SnapshotStatDataResponse" where
  "exampleSnapshot t st =
     \<lparr>Version = ''7.1'', Indices = [''i1'', ''i2''], State = st,
      StartTimeInMillis = t, EndTimeInMillis = t + 1999, Failures = [],
      Shards = \<lparr>Total = 5, Failed = 0, Successful = 5\<rparr>\<rparr>"

definition ok :: "'a \<Rightarrow> 'a GetResult" where
  "ok d = Inr \<lparr>StatusCode = 200, Decode = Inr d, Close = None\<rparr>"

definition status500 :: "'a Response" where
  "status500 = \<lparr>StatusCode = 500, Decode = Inl ''EOF'', Close = None\<rparr>"

definition malformed :: "'a GetResult" where
  "malformed = Inr \<lparr>StatusCode = 200, Decode = Inl ''unexpected end of JSON input'', Close = None\<rparr>"

definition exampleClient :: SnapshotsClient where
  "exampleClient =
     \<lparr>getRepositories = ok [''a'', ''b'', ''c'', ''d''],
      getSnapshots = (\<lambda>r.
        if r = ''a''
        then ok \<lparr>Snapshots = [exampleSnapshot 100500 ''SUCCESS'', exampleSnapshot 200700 ''PARTIAL'']\<rparr>
        else if r = ''b'' then Inr status500
        else if r = ''c'' then ok \<lparr>Snapshots = []\<rparr>
        else malformed)\<rparr>"

text \<open>A cluster whose discovery succeeds and whose every detail request fails.\<close>

definition failingClient :: SnapshotsClient where
  "failingClient =
     \<lparr>getRepositories = ok [''a'', ''b''], getSnapshots = (\<lambda>r. Inr status500)\<rparr>"

definition exampleSnapshots :: Snapshots where
  "exampleSnapshots = NewSnapshots ''elasticsearch'' [(''cluster'', ''es'')] [] ''http://es:9200''"

definition exampleIndicesSettings :: IndicesSettings where
  "exampleIndicesSettings = NewIndicesSettings ''elasticsearch'' [] ''http://es:9200''"

definition exampleIndex :: "string \<Rightarrow> Index" where
  "exampleIndex ro = \<lparr>Settings = \<lparr>IndexInfo = \<lparr>Blocks = \<lparr>ReadOnly = ro\<rparr>\<rparr>\<rparr>\<rparr>"

definition exampleSettings :: IndicesSettingsResponse where
  "exampleSettings =
     [(''i1'', exampleIndex ''true''), (''i2'', exampleIndex ''false''),
      (''i3'', exampleIndex ''true'')]"

section \<open>Properties\<close>


lemma Snapshots_getAndParseURL_snd:
  "snd (Snapshots_getAndParseURL s got) =
     (case fetched got of
        Some d \<Rightarrow> Inr d
      | None \<Rightarrow> Inl (case got of Inl err \<Rightarrow> GetFailed err
                    | Inr res \<Rightarrow> if StatusCode res \<noteq> 200 then RequestFailed (StatusCode res)
                                 else DecodeError (projl (Decode res))))"
  by (auto simp: Snapshots_getAndParseURL_def fetched_def split: sum.splits)

lemma Snapshots_closeBody_fields [simp]:
  "Snapshots.up (Snapshots_closeBody s res) = Snapshots.up s"
  "Snapshots.totalScrapes (Snapshots_closeBody s res) = Snapshots.totalScrapes s"
  "Snapshots.jsonParseFailures (Snapshots_closeBody s res) = Snapshots.jsonParseFailures s"
  "Snapshots.snapshotMetrics (Snapshots_closeBody s res) = Snapshots.snapshotMetrics s"
  "Snapshots.repositoryMetrics (Snapshots_closeBody s res) = Snapshots.repositoryMetrics s"
  "Snapshots.url (Snapshots_closeBody s res) = Snapshots.url s"
  "Snapshots.logger (Snapshots_closeBody s res) = Snapshots.logger s @ closeWarnings (Inr res)"
  by (simp_all add: Snapshots_closeBody_def closeWarnings_def split: option.splits)

lemma Snapshots_getAndParseURL_fields [simp]:
  "Snapshots.up (fst (Snapshots_getAndParseURL s got)) = Snapshots.up s"
  "Snapshots.totalScrapes (fst (Snapshots_getAndParseURL s got)) = Snapshots.totalScrapes s"
  "Snapshots.snapshotMetrics (fst (Snapshots_getAndParseURL s got)) = Snapshots.snapshotMetrics s"
  "Snapshots.repositoryMetrics (fst (Snapshots_getAndParseURL s got)) = Snapshots.repositoryMetrics s"
  "Snapshots.url (fst (Snapshots_getAndParseURL s got)) = Snapshots.url s"
  "Snapshots.logger (fst (Snapshots_getAndParseURL s got)) = Snapshots.logger s @ closeWarnings got"
  "gDesc (Snapshots.jsonParseFailures (fst (Snapshots_getAndParseURL s got))) = gDesc (Snapshots.jsonParseFailures s)"
  "gVal (Snapshots.jsonParseFailures (fst (Snapshots_getAndParseURL s got)))
     = gVal (Snapshots.jsonParseFailures s) + (if decodeFailed got then 1 else 0)"
  by (auto simp: Snapshots_getAndParseURL_def decodeFailed_def Inc_def closeWarnings_def split: sum.splits option.splits)


lemma fetchRepositories_Cons:
  "fetchRepositories s get (r # srr) mssr =
     fetchRepositories (fst (Snapshots_getAndParseURL s (get r))) get srr
       (case snd (Snapshots_getAndParseURL s (get r)) of
          Inl err \<Rightarrow> mssr
        | Inr ssr \<Rightarrow> AList.update r ssr mssr)"
  by (simp split: prod.splits sum.splits)

lemma fetchRepositories_fields [simp]:
  "Snapshots.up (fst (fetchRepositories s get srr mssr)) = Snapshots.up s"
  "Snapshots.totalScrapes (fst (fetchRepositories s get srr mssr)) = Snapshots.totalScrapes s"
  "Snapshots.snapshotMetrics (fst (fetchRepositories s get srr mssr)) = Snapshots.snapshotMetrics s"
  "Snapshots.repositoryMetrics (fst (fetchRepositories s get srr mssr)) = Snapshots.repositoryMetrics s"
  "Snapshots.url (fst (fetchRepositories s get srr mssr)) = Snapshots.url s"
  "gDesc (Snapshots.jsonParseFailures (fst (fetchRepositories s get srr mssr))) = gDesc (Snapshots.jsonParseFailures s)"
  by (induction srr arbitrary: s mssr; simp add: fetchRepositories_Cons del: fetchRepositories.simps(2))+

lemma fetchRepositories_logger:
  "Snapshots.logger (fst (fetchRepositories s get srr mssr)) =
     Snapshots.logger s @ concat (map (\<lambda>r. closeWarnings (get r)) srr)"
  by (induction srr arbitrary: s mssr; simp add: fetchRepositories_Cons del: fetchRepositories.simps(2))

lemma fetchRepositories_jsonParseFailures:
  "gVal (Snapshots.jsonParseFailures (fst (fetchRepositories s get srr mssr))) =
     gVal (Snapshots.jsonParseFailures s) + int (length (filter (\<lambda>r. decodeFailed (get r)) srr))"
  by (induction srr arbitrary: s mssr; simp add: fetchRepositories_Cons del: fetchRepositories.simps(2))

lemma update_fresh: "k \<notin> fst ` set al \<Longrightarrow> AList.update k v al = al @ [(k, v)]"
  by (induction al) auto

lemma fetchedRepositories_Cons:
  "fetchedRepositories get (r # srr) =
     (case fetched (get r) of None \<Rightarrow> [] | Some d \<Rightarrow> [(r, d)]) @ fetchedRepositories get srr"
  by (simp add: fetchedRepositories_def List.map_filter_simps split: option.splits)

lemma fetchedRepositories_Nil [simp]: "fetchedRepositories get [] = []"
  by (simp add: fetchedRepositories_def List.map_filter_simps)

lemma fetchRepositories_mapping:
  "distinct srr \<Longrightarrow> set srr \<inter> fst ` set mssr = {} \<Longrightarrow>
   snd (fetchRepositories s get srr mssr) = mssr @ fetchedRepositories get srr"
proof (induction srr arbitrary: s mssr)
  case Nil
  then show ?case by simp
next
  case (Cons r srr)
  have fresh: "r \<notin> fst ` set mssr" using Cons.prems by auto
  show ?case
  proof (cases "fetched (get r)")
    case None
    then have "snd (fetchRepositories s get (r # srr) mssr) = mssr @ fetchedRepositories get srr"
      using Cons.prems
      by (simp add: fetchRepositories_Cons Snapshots_getAndParseURL_snd Cons.IH
               del: fetchRepositories.simps(2))
    then show ?thesis using None by (simp add: fetchedRepositories_Cons)
  next
    case (Some d)
    have disj: "set srr \<inter> fst ` set (mssr @ [(r, d)]) = {}"
      using Cons.prems by auto
    have "snd (fetchRepositories s get (r # srr) mssr)
            = (mssr @ [(r, d)]) @ fetchedRepositories get srr"
      using Cons.prems Some fresh Cons.IH [OF _ disj]
      by (simp add: fetchRepositories_Cons Snapshots_getAndParseURL_snd update_fresh
               del: fetchRepositories.simps(2))
    then show ?thesis using Some by (simp add: fetchedRepositories_Cons)
  qed
qed

lemma fetchedRepositories_keys: "fst ` set (fetchedRepositories get srr) \<subseteq> set srr"
  by (induction srr) (auto simp: fetchedRepositories_Cons split: option.splits)

lemma index_last: "xs \<noteq> [] \<Longrightarrow> index xs (length xs - Suc 0) = Inr (last xs)"
  by (simp add: index_def last_conv_nth)

lemma entitySamples_pair:
  "entitySamples s (r, d) =
     map (\<lambda>metric. repositorySample metric r d) (Snapshots.repositoryMetrics s)
     @ (if Snapshots d = [] then []
        else map (\<lambda>metric. snapshotSample metric r (last (Snapshots d)))
               (Snapshots.snapshotMetrics s))"
  by (simp add: entitySamples_def)

lemma sendRepositoryMetrics_total:
  "\<forall>m \<in> set ms. \<not> isl (repositorySample m r d) \<Longrightarrow>
   sendRepositoryMetrics ms r d ch = (ch @ map (\<lambda>m. projr (repositorySample m r d)) ms, None)"
proof (induction ms arbitrary: ch)
  case Nil
  then show ?case by simp
next
  case (Cons m ms)
  from Cons.prems have ok: "\<not> isl (repositorySample m r d)" by simp
  then obtain v where v: "repositoryMetric.Value m d = Inr v"
    by (cases "repositoryMetric.Value m d") (simp_all add: repositorySample_def)
  with ok obtain x where x: "MustNewConstMetric (repositoryMetric.Desc m) (repositoryMetric.Type m) v
            (repositoryMetric.Labels m r) = Inr x"
    by (cases "MustNewConstMetric (repositoryMetric.Desc m) (repositoryMetric.Type m) v
            (repositoryMetric.Labels m r)") (simp_all add: repositorySample_def)
  have px: "projr (repositorySample m r d) = x"
    by (simp add: repositorySample_def v x)
  show ?case using Cons.prems by (simp add: v x px Cons.IH)
qed

lemma sendSnapshotMetrics_total:
  "\<forall>m \<in> set ms. \<not> isl (snapshotSample m r d) \<Longrightarrow>
   sendSnapshotMetrics ms r d ch = (ch @ map (\<lambda>m. projr (snapshotSample m r d)) ms, None)"
proof (induction ms arbitrary: ch)
  case Nil
  then show ?case by simp
next
  case (Cons m ms)
  from Cons.prems have ok: "\<not> isl (snapshotSample m r d)" by simp
  then obtain v where v: "snapshotMetric.Value m d = Inr v"
    by (cases "snapshotMetric.Value m d") (simp_all add: snapshotSample_def)
  with ok obtain x where x: "MustNewConstMetric (snapshotMetric.Desc m) (snapshotMetric.Type m) v
            (snapshotMetric.Labels m r d) = Inr x"
    by (cases "MustNewConstMetric (snapshotMetric.Desc m) (snapshotMetric.Type m) v
            (snapshotMetric.Labels m r d)") (simp_all add: snapshotSample_def)
  have px: "projr (snapshotSample m r d) = x"
    by (simp add: snapshotSample_def v x)
  show ?case using Cons.prems by (simp add: v x px Cons.IH)
qed

lemma Snapshots_getAndParseURL_Some:
  "fetched got = Some d \<Longrightarrow> snd (Snapshots_getAndParseURL s got) = Inr d"
  by (simp add: Snapshots_getAndParseURL_snd)

lemma Snapshots_getAndParseURL_None:
  "fetched got = None \<Longrightarrow> \<exists>err. snd (Snapshots_getAndParseURL s got) = Inl err"
  by (simp add: Snapshots_getAndParseURL_snd)

lemma entitySamples_total:
  assumes A: "\<forall>m \<in> set (Snapshots.repositoryMetrics s). \<forall>r d. \<not> isl (repositorySample m r d)"
    and B: "\<forall>m \<in> set (Snapshots.snapshotMetrics s). \<forall>r d. \<not> isl (snapshotSample m r d)"
  shows "\<forall>x \<in> set (entitySamples s e). \<not> isl x"
  using A B by (auto simp: entitySamples_def)

lemma sendSnapshotsStats_total:
  assumes A: "\<forall>m \<in> set (Snapshots.repositoryMetrics s). \<forall>r d. \<not> isl (repositorySample m r d)"
    and B: "\<forall>m \<in> set (Snapshots.snapshotMetrics s). \<forall>r d. \<not> isl (snapshotSample m r d)"
  shows "sendSnapshotsStats s mssr ch =
           (ch @ map projr (concat (map (entitySamples s) mssr)), None)"
proof (induction mssr arbitrary: ch)
  case Nil
  then show ?case by simp
next
  case (Cons e mssr)
  obtain r d where e: "e = (r, d)" by (cases e)
  have 1: "sendRepositoryMetrics (Snapshots.repositoryMetrics s) r d ch =
             (ch @ map (\<lambda>m. projr (repositorySample m r d)) (Snapshots.repositoryMetrics s), None)"
    using A by (intro sendRepositoryMetrics_total) simp
  show ?case
  proof (cases "Snapshots d = []")
    case True
    then show ?thesis
      by (simp add: e 1 Cons.IH entitySamples_pair comp_def)
  next
    case False
    have 2: "\<And>ch'. sendSnapshotMetrics (Snapshots.snapshotMetrics s) r (last (Snapshots d)) ch' =
             (ch' @ map (\<lambda>m. projr (snapshotSample m r (last (Snapshots d))))
                      (Snapshots.snapshotMetrics s), None)"
      using B by (intro sendSnapshotMetrics_total) simp
    from False show ?thesis
      by (simp add: e 1 2 index_last Cons.IH entitySamples_pair comp_def)
  qed
qed

lemma NewSnapshots_repositoryMetrics_total:
  "\<forall>m \<in> set (Snapshots.repositoryMetrics (NewSnapshots ns cl lg u)). \<forall>r d.
      \<not> isl (repositorySample m r d)"
  by (auto simp: NewSnapshots_def repositorySample_def MustNewConstMetric_def NewDesc_def
        number_of_snapshots_def oldest_snapshot_timestamp_def index_def div64_def
        defaultSnapshotRepositoryLabels_def defaultSnapshotRepositoryLabelValues_def)

lemma NewSnapshots_snapshotMetrics_total:
  "\<forall>m \<in> set (Snapshots.snapshotMetrics (NewSnapshots ns cl lg u)). \<forall>r d.
      \<not> isl (snapshotSample m r d)"
  by (auto simp: NewSnapshots_def snapshotSample_def MustNewConstMetric_def NewDesc_def
        snapshot_number_of_indices_def snapshot_start_time_timestamp_def
        snapshot_end_time_timestamp_def snapshot_number_of_failures_def
        snapshot_total_shards_def snapshot_failed_shards_def snapshot_successful_shards_def
        div64_def defaultSnapshotLabels_def defaultSnapshotLabelValues_def)

lemma Snapshots_Collect_failed:
  assumes "fetched (getRepositories client) = None"
  shows "\<exists>s' err. Snapshots_Collect s client = (s', bookkeeping s', None)
           \<and> gVal (Snapshots.up s') = 0
           \<and> Snapshots.logger s' = Snapshots.logger s @ closeWarnings (getRepositories client)
                 @ [Warn ''failed to fetch and decode snapshot stats'' err]"
proof -
  let ?s0 = "s\<lparr>Snapshots.totalScrapes := Inc (Snapshots.totalScrapes s)\<rparr>"
  obtain s1 res where g: "Snapshots_getAndParseURL ?s0 (getRepositories client) = (s1, res)"
    by (cases "Snapshots_getAndParseURL ?s0 (getRepositories client)")
  from Snapshots_getAndParseURL_None [OF assms, of ?s0] g obtain err where res: "res = Inl err"
    by auto
  have lg: "Snapshots.logger s1 = Snapshots.logger s @ closeWarnings (getRepositories client)"
    using Snapshots_getAndParseURL_fields(6) [of ?s0 "getRepositories client"] g by simp
  show ?thesis
    by (simp add: Snapshots_Collect_def fetchAndDecodeSnapshotsStats_def g res bookkeeping_def
          Set_gauge_def lg)
qed

lemma Snapshots_Collect_discovered:
  assumes "fetched (getRepositories client) = Some srr"
  shows "\<exists>s1 mssr.
           fetchRepositories
             (fst (Snapshots_getAndParseURL (s\<lparr>Snapshots.totalScrapes := Inc (Snapshots.totalScrapes s)\<rparr>)
                    (getRepositories client)))
             (getSnapshots client) srr [] = (s1, mssr)
         \<and> Snapshots_Collect s client =
             (s1\<lparr>Snapshots.up := Set_gauge (Snapshots.up s1) 1\<rparr>,
              fst (sendSnapshotsStats s1 mssr [])
                @ bookkeeping (s1\<lparr>Snapshots.up := Set_gauge (Snapshots.up s1) 1\<rparr>),
              snd (sendSnapshotsStats s1 mssr []))"
proof -
  let ?s0 = "s\<lparr>Snapshots.totalScrapes := Inc (Snapshots.totalScrapes s)\<rparr>"
  obtain s' res where g: "Snapshots_getAndParseURL ?s0 (getRepositories client) = (s', res)"
    by (cases "Snapshots_getAndParseURL ?s0 (getRepositories client)")
  from Snapshots_getAndParseURL_Some [OF assms, of ?s0] g have res: "res = Inr srr"
    by simp
  obtain s1 mssr where f: "fetchRepositories s' (getSnapshots client) srr [] = (s1, mssr)"
    by (cases "fetchRepositories s' (getSnapshots client) srr []")
  show ?thesis
    by (simp add: Snapshots_Collect_def fetchAndDecodeSnapshotsStats_def g res f bookkeeping_def
          split: prod.splits)
qed

lemma childValue_Set_child [simp]: "childValue (Set_child v lvs x) lvs = x"
  by (simp add: childValue_def Set_child_def update_conv')

lemma childValue_Inc_child [simp]: "childValue (Inc_child v lvs) lvs = childValue v lvs + 1"
  by (simp add: Inc_child_def)

lemma IndicesSettings_closeBody_fields [simp]:
  "IndicesSettings.up (IndicesSettings_closeBody cs res) = IndicesSettings.up cs"
  "IndicesSettings.totalScrapes (IndicesSettings_closeBody cs res) = IndicesSettings.totalScrapes cs"
  "IndicesSettings.jsonParseFailures (IndicesSettings_closeBody cs res) = IndicesSettings.jsonParseFailures cs"
  "IndicesSettings.readOnlyIndices (IndicesSettings_closeBody cs res) = IndicesSettings.readOnlyIndices cs"
  "IndicesSettings.url (IndicesSettings_closeBody cs res) = IndicesSettings.url cs"
  by (simp_all add: IndicesSettings_closeBody_def split: option.splits)

lemma IndicesSettings_getAndParseURL_fields [simp]:
  "IndicesSettings.up (fst (IndicesSettings_getAndParseURL cs got)) = IndicesSettings.up cs"
  "IndicesSettings.totalScrapes (fst (IndicesSettings_getAndParseURL cs got)) = IndicesSettings.totalScrapes cs"
  "IndicesSettings.readOnlyIndices (fst (IndicesSettings_getAndParseURL cs got)) = IndicesSettings.readOnlyIndices cs"
  "IndicesSettings.url (fst (IndicesSettings_getAndParseURL cs got)) = IndicesSettings.url cs"
  "childValue (IndicesSettings.jsonParseFailures (fst (IndicesSettings_getAndParseURL cs got)))
       [IndicesSettings.url cs]
     = childValue (IndicesSettings.jsonParseFailures cs) [IndicesSettings.url cs]
       + (if decodeFailed got then 1 else 0)"
  by (auto simp: IndicesSettings_getAndParseURL_def decodeFailed_def split: sum.splits)

lemma IndicesSettings_getAndParseURL_isl:
  "isl (snd (IndicesSettings_getAndParseURL cs got)) \<longleftrightarrow> fetched got = None"
  by (auto simp: IndicesSettings_getAndParseURL_def fetched_def split: sum.splits)

lemma IndicesSettings_Collect_fields:
  "IndicesSettings.url (fst (IndicesSettings_Collect cs got)) = IndicesSettings.url cs"
  "childValue (IndicesSettings.up (fst (IndicesSettings_Collect cs got))) [IndicesSettings.url cs]
     = (if fetched got = None then 0 else 1)"
  "childValue (IndicesSettings.jsonParseFailures (fst (IndicesSettings_Collect cs got)))
       [IndicesSettings.url cs]
     = childValue (IndicesSettings.jsonParseFailures cs) [IndicesSettings.url cs]
       + (if decodeFailed got then 1 else 0)"
proof -
  let ?cs0 = "cs\<lparr>IndicesSettings.totalScrapes :=
                   Inc_child (IndicesSettings.totalScrapes cs) [IndicesSettings.url cs]\<rparr>"
  obtain cs1 res where g: "IndicesSettings_getAndParseURL ?cs0 got = (cs1, res)"
    by (cases "IndicesSettings_getAndParseURL ?cs0 got")
  have cs1: "cs1 = fst (IndicesSettings_getAndParseURL ?cs0 got)" using g by simp
  have u: "IndicesSettings.url cs1 = IndicesSettings.url cs" by (simp add: cs1)
  have j: "childValue (IndicesSettings.jsonParseFailures cs1) [IndicesSettings.url cs]
             = childValue (IndicesSettings.jsonParseFailures cs) [IndicesSettings.url cs]
               + (if decodeFailed got then 1 else 0)"
    using IndicesSettings_getAndParseURL_fields(5) [of ?cs0 got] by (simp add: cs1)
  have r: "isl res \<longleftrightarrow> fetched got = None"
    using IndicesSettings_getAndParseURL_isl [of ?cs0 got] g by simp
  show "IndicesSettings.url (fst (IndicesSettings_Collect cs got)) = IndicesSettings.url cs"
    using u by (cases res) (simp_all add: IndicesSettings_Collect_def
        fetchAndDecodeIndicesSettings_def g)
  show "childValue (IndicesSettings.up (fst (IndicesSettings_Collect cs got))) [IndicesSettings.url cs]
     = (if fetched got = None then 0 else 1)"
    using u r by (cases res) (simp_all add: IndicesSettings_Collect_def
        fetchAndDecodeIndicesSettings_def g)
  show "childValue (IndicesSettings.jsonParseFailures (fst (IndicesSettings_Collect cs got)))
       [IndicesSettings.url cs]
     = childValue (IndicesSettings.jsonParseFailures cs) [IndicesSettings.url cs]
       + (if decodeFailed got then 1 else 0)"
    using u j by (cases res) (simp_all add: IndicesSettings_Collect_def
        fetchAndDecodeIndicesSettings_def g)
qed

lemma Snapshots_Collect_up:
  "gVal (Snapshots.up (fst (Snapshots_Collect s client)))
     = (if fetched (getRepositories client) = None then 0 else 1)"
proof (cases "fetched (getRepositories client)")
  case None
  from Snapshots_Collect_failed [OF None, of s] show ?thesis using None by auto
next
  case (Some srr)
  from Snapshots_Collect_discovered [OF Some, of s] show ?thesis using Some
    by (auto simp: Set_gauge_def)
qed

text \<open>
  Claim C3. After a cycle the gauge \<open>up\<close> is 1 exactly when the discovery fetch (for the
  indices settings collector: the settings fetch) succeeded in that cycle, and 0 otherwise,
  whatever the answers to the detail requests of the repositories are.
\<close>

theorem up_iff_fetch_succeeded:
  "(gVal (Snapshots.up (fst (Snapshots_Collect s client))) = 1
      \<longleftrightarrow> fetched (getRepositories client) \<noteq> None)
   \<and> (gVal (Snapshots.up (fst (Snapshots_Collect s client))) = 0
      \<longleftrightarrow> fetched (getRepositories client) = None)
   \<and> (childValue (IndicesSettings.up (fst (IndicesSettings_Collect cs got)))
         [IndicesSettings.url cs] = 1
      \<longleftrightarrow> fetched got \<noteq> None)
   \<and> (childValue (IndicesSettings.up (fst (IndicesSettings_Collect cs got)))
         [IndicesSettings.url cs] = 0
      \<longleftrightarrow> fetched got = None)"
  by (simp add: Snapshots_Collect_up IndicesSettings_Collect_fields(2))

theorem up_iff_fetch_succeeded_witness:
  "fetched (getRepositories failingClient) = Some [''a'', ''b'']
   \<and> fetchedRepositories (getSnapshots failingClient) [''a'', ''b''] = []
   \<and> gVal (Snapshots.up (fst (Snapshots_Collect exampleSnapshots failingClient))) = 1
   \<and> childValue (IndicesSettings.up
         (fst (IndicesSettings_Collect exampleIndicesSettings (Inr status500))))
         [''http://es:9200''] = 0"
  using up_iff_fetch_succeeded
    [of exampleSnapshots failingClient exampleIndicesSettings "Inr status500"]
  by (simp add: failingClient_def fetched_def fetchedRepositories_def ok_def status500_def
        List.map_filter_simps exampleIndicesSettings_def NewIndicesSettings_def)

text \<open>
  Claim C9. When the settings fetch or its decoding fails, \<open>Collect\<close> of the indices
  settings collector sets the gauge \<open>readOnlyIndices\<close> to 0, whatever its value was before
  the cycle.
\<close>

theorem readOnlyIndices_reset_on_failure:
  assumes "fetched got = None"
  shows "childValue (IndicesSettings.readOnlyIndices (fst (IndicesSettings_Collect cs got)))
           [IndicesSettings.url cs] = 0"
proof -
  let ?cs0 = "cs\<lparr>IndicesSettings.totalScrapes :=
                   Inc_child (IndicesSettings.totalScrapes cs) [IndicesSettings.url cs]\<rparr>"
  obtain cs1 res where g: "IndicesSettings_getAndParseURL ?cs0 got = (cs1, res)"
    by (cases "IndicesSettings_getAndParseURL ?cs0 got")
  have u: "IndicesSettings.url cs1 = IndicesSettings.url cs"
    using IndicesSettings_getAndParseURL_fields(4) [of ?cs0 got] g by simp
  from IndicesSettings_getAndParseURL_isl [of ?cs0 got] g assms obtain err where "res = Inl err"
    by (cases res) simp_all
  then show ?thesis
    by (simp add: IndicesSettings_Collect_def fetchAndDecodeIndicesSettings_def g u)
qed

theorem readOnlyIndices_reset_on_failure_witness:
  "fetched (Inr status500 :: IndicesSettingsResponse GetResult) = None
   \<and> childValue (IndicesSettings.readOnlyIndices
         (fst (IndicesSettings_Collect exampleIndicesSettings (ok exampleSettings))))
         [''http://es:9200''] = 2
   \<and> childValue (IndicesSettings.readOnlyIndices
         (fst (IndicesSettings_Collect
                 (fst (IndicesSettings_Collect exampleIndicesSettings (ok exampleSettings)))
                 (Inr status500))))
         [''http://es:9200''] = 0"
  using readOnlyIndices_reset_on_failure
    [of "Inr status500"
        "fst (IndicesSettings_Collect exampleIndicesSettings (ok exampleSettings))"]
  by (simp add: fetched_def IndicesSettings_Collect_def fetchAndDecodeIndicesSettings_def
        IndicesSettings_getAndParseURL_def IndicesSettings_closeBody_def NewIndicesSettings_def
        NewVec_def Inc_child_def Set_child_def childValue_def exampleIndicesSettings_def
        exampleSettings_def exampleIndex_def ok_def status500_def)

lemma decodeFailed_not_fetched: "decodeFailed got \<Longrightarrow> fetched got = None"
  by (auto simp: decodeFailed_def fetched_def split: sum.splits)

lemma Snapshots_Collect_jsonParseFailures:
  "gVal (Snapshots.jsonParseFailures (fst (Snapshots_Collect s client)))
     = gVal (Snapshots.jsonParseFailures s) + int (Snapshots_decodeFailures client)"
proof -
  let ?s0 = "s\<lparr>Snapshots.totalScrapes := Inc (Snapshots.totalScrapes s)\<rparr>"
  obtain s1 res where g: "Snapshots_getAndParseURL ?s0 (getRepositories client) = (s1, res)"
    by (cases "Snapshots_getAndParseURL ?s0 (getRepositories client)")
  have j1: "gVal (Snapshots.jsonParseFailures s1)
              = gVal (Snapshots.jsonParseFailures s)
                + (if decodeFailed (getRepositories client) then 1 else 0)"
    using Snapshots_getAndParseURL_fields(8) [of ?s0 "getRepositories client"] g by simp
  show ?thesis
  proof (cases "fetched (getRepositories client)")
    case None
    from Snapshots_getAndParseURL_None [OF None, of ?s0] g obtain err where res: "res = Inl err"
      by auto
    show ?thesis using None j1
      by (simp add: Snapshots_Collect_def fetchAndDecodeSnapshotsStats_def g res
            Snapshots_decodeFailures_def)
  next
    case (Some srr)
    from Snapshots_getAndParseURL_Some [OF Some, of ?s0] g have res: "res = Inr srr"
      by simp
    have nd: "\<not> decodeFailed (getRepositories client)"
      using Some decodeFailed_not_fetched by fastforce
    obtain s2 mssr where f: "fetchRepositories s1 (getSnapshots client) srr [] = (s2, mssr)"
      by (cases "fetchRepositories s1 (getSnapshots client) srr []")
    have j2: "gVal (Snapshots.jsonParseFailures s2)
                = gVal (Snapshots.jsonParseFailures s1)
                  + int (length (filter (\<lambda>r. decodeFailed (getSnapshots client r)) srr))"
      using fetchRepositories_jsonParseFailures [of s1 "getSnapshots client" srr "[]"] f by simp
    show ?thesis using Some nd j1 j2
      by (simp add: Snapshots_Collect_def fetchAndDecodeSnapshotsStats_def g res f
            Snapshots_decodeFailures_def split: prod.splits)
  qed
qed

lemma Snapshots_cycles_jsonParseFailures:
  "gVal (Snapshots.jsonParseFailures (Snapshots_cycles s clients))
     = gVal (Snapshots.jsonParseFailures s) + int (sum_list (map Snapshots_decodeFailures clients))"
  unfolding Snapshots_cycles_def
  by (induction clients arbitrary: s) (simp_all add: Snapshots_Collect_jsonParseFailures)

lemma IndicesSettings_cycles_url:
  "IndicesSettings.url (IndicesSettings_cycles cs gots) = IndicesSettings.url cs"
  unfolding IndicesSettings_cycles_def
  by (induction gots arbitrary: cs) (simp_all add: IndicesSettings_Collect_fields(1))

lemma IndicesSettings_cycles_jsonParseFailures:
  "childValue (IndicesSettings.jsonParseFailures (IndicesSettings_cycles cs gots))
       [IndicesSettings.url cs]
     = childValue (IndicesSettings.jsonParseFailures cs) [IndicesSettings.url cs]
       + int (length (filter decodeFailed gots))"
  unfolding IndicesSettings_cycles_def
proof (induction gots arbitrary: cs)
  case Nil
  then show ?case by simp
next
  case (Cons got gots)
  show ?case
    using Cons.IH [of "fst (IndicesSettings_Collect cs got)"]
    by (simp add: IndicesSettings_Collect_fields(1,3))
qed

text \<open>
  Claim C7. In one cycle the counter \<open>jsonParseFailures\<close> grows by exactly the number of
  decode failures of that cycle, in the discovery fetch or in a detail fetch; over any
  sequence of cycles it grows by their sum, so it never decreases. A status other than 200
  gives the error that carries the status code and leaves the counter as it is.
\<close>

theorem jsonParseFailures_counts_decode_failures:
  "gVal (Snapshots.jsonParseFailures (fst (Snapshots_Collect s client)))
     = gVal (Snapshots.jsonParseFailures s) + int (Snapshots_decodeFailures client)
   \<and> gVal (Snapshots.jsonParseFailures (Snapshots_cycles s clients))
     = gVal (Snapshots.jsonParseFailures s)
       + int (sum_list (map Snapshots_decodeFailures clients))
   \<and> gVal (Snapshots.jsonParseFailures s)
     \<le> gVal (Snapshots.jsonParseFailures (Snapshots_cycles s clients))
   \<and> childValue (IndicesSettings.jsonParseFailures (fst (IndicesSettings_Collect cs got)))
       [IndicesSettings.url cs]
     = childValue (IndicesSettings.jsonParseFailures cs) [IndicesSettings.url cs]
       + (if decodeFailed got then 1 else 0)
   \<and> childValue (IndicesSettings.jsonParseFailures (IndicesSettings_cycles cs gots))
       [IndicesSettings.url cs]
     = childValue (IndicesSettings.jsonParseFailures cs) [IndicesSettings.url cs]
       + int (length (filter decodeFailed gots))
   \<and> childValue (IndicesSettings.jsonParseFailures cs) [IndicesSettings.url cs]
     \<le> childValue (IndicesSettings.jsonParseFailures (IndicesSettings_cycles cs gots))
          [IndicesSettings.url cs]
   \<and> (StatusCode res \<noteq> 200 \<longrightarrow>
        snd (Snapshots_getAndParseURL s (Inr res)) = Inl (RequestFailed (StatusCode res))
        \<and> Snapshots.jsonParseFailures (fst (Snapshots_getAndParseURL s (Inr res)))
            = Snapshots.jsonParseFailures s)
   \<and> (StatusCode res \<noteq> 200 \<longrightarrow>
        snd (IndicesSettings_getAndParseURL cs (Inr res)) = Inl (RequestFailed (StatusCode res))
        \<and> IndicesSettings.jsonParseFailures (fst (IndicesSettings_getAndParseURL cs (Inr res)))
            = IndicesSettings.jsonParseFailures cs)"
  by (simp add: Snapshots_Collect_jsonParseFailures Snapshots_cycles_jsonParseFailures
        IndicesSettings_Collect_fields(3) IndicesSettings_cycles_jsonParseFailures
        Snapshots_getAndParseURL_def IndicesSettings_getAndParseURL_def)

theorem jsonParseFailures_counts_decode_failures_witness:
  "StatusCode (status500 :: SnapshotStatsResponse Response) \<noteq> 200
   \<and> snd (Snapshots_getAndParseURL exampleSnapshots
            (Inr status500 :: SnapshotStatsResponse GetResult)) = Inl (RequestFailed 500)
   \<and> gVal (Snapshots.jsonParseFailures
         (fst (Snapshots_getAndParseURL exampleSnapshots
            (Inr status500 :: SnapshotStatsResponse GetResult)))) = 0
   \<and> gVal (Snapshots.jsonParseFailures (fst (Snapshots_Collect exampleSnapshots exampleClient)))
       = 1"
  using jsonParseFailures_counts_decode_failures
    [of exampleSnapshots exampleClient "[]" exampleIndicesSettings malformed "[]"
        "status500 :: SnapshotStatsResponse Response"]
  by (simp add: status500_def exampleSnapshots_def NewSnapshots_def NewGauge_def
        Snapshots_decodeFailures_def exampleClient_def decodeFailed_def fetched_def ok_def
        malformed_def)

lemma truncSeconds_cases:
  "truncSeconds t = (if t < 0 then - ((- t) div 1000) else t div 1000)"
  by (simp add: truncSeconds_def sgn_if)

lemma div_1000_bounds:
  fixes t :: int
  assumes "0 \<le> t"
  shows "0 \<le> t div 1000" "t - 1000 * (t div 1000) < 1000" "0 \<le> t - 1000 * (t div 1000)"
    "t div 1000 \<le> t"
proof -
  show a: "0 \<le> t div 1000" using assms by (simp add: pos_imp_zdiv_nonneg_iff)
  have "t - 1000 * (t div 1000) = t mod 1000" by (simp add: minus_mult_div_eq_mod)
  then show b: "t - 1000 * (t div 1000) < 1000" "0 \<le> t - 1000 * (t div 1000)" by simp_all
  show "t div 1000 \<le> t" using a b by linarith
qed

lemma truncSeconds_bounds:
  "\<bar>truncSeconds t\<bar> \<le> \<bar>t\<bar>" "\<bar>t - 1000 * truncSeconds t\<bar> < 1000"
  "0 \<le> t \<Longrightarrow> 0 \<le> truncSeconds t" "t \<le> 0 \<Longrightarrow> truncSeconds t \<le> 0"
  "\<bar>truncSeconds t\<bar> = \<bar>t\<bar> div 1000"
proof -
  note q = div_1000_bounds [of t] div_1000_bounds [of "- t"]
  show "\<bar>truncSeconds t\<bar> \<le> \<bar>t\<bar>"
    using q by (cases "t < 0") (simp_all add: truncSeconds_cases)
  show "\<bar>t - 1000 * truncSeconds t\<bar> < 1000"
    using q by (cases "t < 0") (simp_all add: truncSeconds_cases)
  show "0 \<le> t \<Longrightarrow> 0 \<le> truncSeconds t"
    using q by (cases "t < 0") (simp_all add: truncSeconds_cases)
  show "t \<le> 0 \<Longrightarrow> truncSeconds t \<le> 0"
    using q by (cases "t < 0") (auto simp add: truncSeconds_cases)
  show "\<bar>truncSeconds t\<bar> = \<bar>t\<bar> div 1000"
    using q by (cases "t < 0") (simp_all add: truncSeconds_cases)
qed

lemma div64_1000: "div64 a 1000 = Inr (word_of_int (truncSeconds (sint a)))"
  by (simp add: div64_def truncSeconds_def signed_divide_int_def)

lemma sint_truncSeconds:
  fixes a :: int64
  shows "sint (word_of_int (truncSeconds (sint a)) :: int64) = truncSeconds (sint a)"
proof -
  have b: "- (2 ^ 63) \<le> sint a" "sint a < 2 ^ 63"
    using sint_ge [of a] sint_lt [of a] by simp_all
  have "\<bar>truncSeconds (sint a)\<bar> \<le> \<bar>sint a\<bar>" by (rule truncSeconds_bounds(1))
  moreover have "0 \<le> sint a \<Longrightarrow> 0 \<le> truncSeconds (sint a)" by (rule truncSeconds_bounds(3))
  moreover have "sint a \<le> 0 \<Longrightarrow> truncSeconds (sint a) \<le> 0" by (rule truncSeconds_bounds(4))
  ultimately have "- (2 ^ 63) \<le> truncSeconds (sint a)" "truncSeconds (sint a) < 2 ^ 63"
    using b by linarith+
  then show ?thesis
    by (simp add: sint_sbintrunc' signed_take_bit_int_eq_self)
qed

text \<open>
  Claim C10. The start-time and end-time values of a snapshot are its timestamps in
  milliseconds divided by 1000 with the quotient truncated towards zero, so less than a
  second is dropped; the oldest-snapshot timestamp is the same quotient of the start time of
  the first snapshot.
\<close>

theorem timestamps_truncated_to_seconds:
  "snapshotMetric.Value (Snapshots.snapshotMetrics (NewSnapshots ns cl lg u) ! 1) d
     = Inr (truncSeconds (sint (StartTimeInMillis d)))
   \<and> fqName (snapshotMetric.Desc (Snapshots.snapshotMetrics (NewSnapshots ns cl lg u) ! 1))
     = BuildFQName ns ''snapshot_stats'' ''snapshot_start_time_timestamp''
   \<and> snapshotMetric.Value (Snapshots.snapshotMetrics (NewSnapshots ns cl lg u) ! 2) d
     = Inr (truncSeconds (sint (EndTimeInMillis d)))
   \<and> fqName (snapshotMetric.Desc (Snapshots.snapshotMetrics (NewSnapshots ns cl lg u) ! 2))
     = BuildFQName ns ''snapshot_stats'' ''snapshot_end_time_timestamp''
   \<and> repositoryMetric.Value (Snapshots.repositoryMetrics (NewSnapshots ns cl lg u) ! 1)
       \<lparr>Snapshots = d # ds\<rparr>
     = Inr (truncSeconds (sint (StartTimeInMillis d)))
   \<and> fqName (repositoryMetric.Desc (Snapshots.repositoryMetrics (NewSnapshots ns cl lg u) ! 1))
     = BuildFQName ns ''snapshot_stats'' ''oldest_snapshot_timestamp''
   \<and> \<bar>truncSeconds t\<bar> = \<bar>t\<bar> div 1000
   \<and> sgn (truncSeconds t) * sgn t \<noteq> - 1
   \<and> \<bar>t - 1000 * truncSeconds t\<bar> < 1000"
proof -
  have a: "\<bar>truncSeconds t\<bar> = \<bar>t\<bar> div 1000"
    by (rule truncSeconds_bounds(5))
  have s: "sgn (truncSeconds t) * sgn t \<noteq> - 1"
    using truncSeconds_bounds(3,4) [of t] by (auto simp: sgn_if split: if_splits)
  show ?thesis
    using a s truncSeconds_bounds(2) [of t]
    by (simp add: NewSnapshots_def NewDesc_def snapshot_start_time_timestamp_def
          snapshot_end_time_timestamp_def oldest_snapshot_timestamp_def index_def
          div64_1000 sint_truncSeconds)
qed

text \<open>
  Claim C8. Every value function of the two descriptor tables returns a number on every
  payload, with no panic: the count of snapshots and the oldest-snapshot timestamp of a
  payload without snapshots are 0, and so are the counts of an empty index or failure
  sequence.
\<close>

theorem value_functions_total:
  "(\<forall>m \<in> set (Snapshots.snapshotMetrics (NewSnapshots ns cl lg u)).
       \<exists>v. snapshotMetric.Value m d = Inr v)
   \<and> (\<forall>m \<in> set (Snapshots.repositoryMetrics (NewSnapshots ns cl lg u)).
       \<exists>v. repositoryMetric.Value m r = Inr v)
   \<and> map (\<lambda>m. repositoryMetric.Value m \<lparr>Snapshots = []\<rparr>)
         (Snapshots.repositoryMetrics (NewSnapshots ns cl lg u)) = [Inr 0, Inr 0]
   \<and> (Indices d = [] \<longrightarrow>
        snapshotMetric.Value (Snapshots.snapshotMetrics (NewSnapshots ns cl lg u) ! 0) d = Inr 0)
   \<and> (Failures d = [] \<longrightarrow>
        snapshotMetric.Value (Snapshots.snapshotMetrics (NewSnapshots ns cl lg u) ! 3) d = Inr 0)"
proof -
  have 1: "\<forall>m \<in> set (Snapshots.snapshotMetrics (NewSnapshots ns cl lg u)).
       \<exists>v. snapshotMetric.Value m d = Inr v"
    by (simp add: NewSnapshots_def snapshot_number_of_indices_def
          snapshot_start_time_timestamp_def snapshot_end_time_timestamp_def
          snapshot_number_of_failures_def snapshot_total_shards_def
          snapshot_failed_shards_def snapshot_successful_shards_def div64_1000)
  have 2: "\<forall>m \<in> set (Snapshots.repositoryMetrics (NewSnapshots ns cl lg u)).
       \<exists>v. repositoryMetric.Value m r = Inr v"
    by (simp add: NewSnapshots_def number_of_snapshots_def oldest_snapshot_timestamp_def
          index_def div64_1000)
  have 3: "map (\<lambda>m. repositoryMetric.Value m \<lparr>Snapshots = []\<rparr>)
         (Snapshots.repositoryMetrics (NewSnapshots ns cl lg u)) = [Inr 0, Inr 0]"
    by (simp add: NewSnapshots_def number_of_snapshots_def oldest_snapshot_timestamp_def)
  have 4: "Indices d = [] \<longrightarrow>
        snapshotMetric.Value (Snapshots.snapshotMetrics (NewSnapshots ns cl lg u) ! 0) d = Inr 0"
    by (simp add: NewSnapshots_def snapshot_number_of_indices_def)
  have 5: "Failures d = [] \<longrightarrow>
        snapshotMetric.Value (Snapshots.snapshotMetrics (NewSnapshots ns cl lg u) ! 3) d = Inr 0"
    by (simp add: NewSnapshots_def snapshot_number_of_failures_def)
  from 1 2 3 4 5 show ?thesis by blast
qed

theorem value_functions_total_witness:
  "Indices (exampleSnapshot 1500 ''SUCCESS''\<lparr>Indices := []\<rparr>) = []
   \<and> Failures (exampleSnapshot 1500 ''SUCCESS''\<lparr>Indices := []\<rparr>) = []
   \<and> snapshotMetric.Value (Snapshots.snapshotMetrics exampleSnapshots ! 0)
        (exampleSnapshot 1500 ''SUCCESS''\<lparr>Indices := []\<rparr>) = Inr 0
   \<and> snapshotMetric.Value (Snapshots.snapshotMetrics exampleSnapshots ! 3)
        (exampleSnapshot 1500 ''SUCCESS''\<lparr>Indices := []\<rparr>) = Inr 0
   \<and> (\<exists>v. snapshot_start_time_timestamp (exampleSnapshot 1500 ''SUCCESS''\<lparr>Indices := []\<rparr>)
          = Inr v)
   \<and> (\<exists>v. oldest_snapshot_timestamp \<lparr>Snapshots = []\<rparr> = Inr v)"
  using value_functions_total
    [of "''elasticsearch''" "[(''cluster'', ''es'')]" "[]" "''http://es:9200''"
        "exampleSnapshot 1500 ''SUCCESS''\<lparr>Indices := []\<rparr>" "\<lparr>Snapshots = []\<rparr>"]
  by (simp add: exampleSnapshots_def exampleSnapshot_def NewSnapshots_def)

text \<open>
  The descriptor tables are fixed after construction: no cycle changes them, so every state
  reached from \<open>NewSnapshots\<close> has the tables of \<open>NewSnapshots\<close>.
\<close>

lemma Snapshots_Collect_tables:
  "Snapshots.snapshotMetrics (fst (Snapshots_Collect s client)) = Snapshots.snapshotMetrics s"
  "Snapshots.repositoryMetrics (fst (Snapshots_Collect s client)) = Snapshots.repositoryMetrics s"
proof -
  let ?s0 = "s\<lparr>Snapshots.totalScrapes := Inc (Snapshots.totalScrapes s)\<rparr>"
  obtain s1 res where g: "Snapshots_getAndParseURL ?s0 (getRepositories client) = (s1, res)"
    by (cases "Snapshots_getAndParseURL ?s0 (getRepositories client)")
  have s1: "s1 = fst (Snapshots_getAndParseURL ?s0 (getRepositories client))" using g by simp
  have t1: "Snapshots.snapshotMetrics s1 = Snapshots.snapshotMetrics s"
    "Snapshots.repositoryMetrics s1 = Snapshots.repositoryMetrics s"
    by (simp_all add: s1)
  have "Snapshots.snapshotMetrics (fst (Snapshots_Collect s client)) = Snapshots.snapshotMetrics s
    \<and> Snapshots.repositoryMetrics (fst (Snapshots_Collect s client))
        = Snapshots.repositoryMetrics s"
  proof (cases res)
    case (Inl err)
    then show ?thesis
      by (simp add: Snapshots_Collect_def fetchAndDecodeSnapshotsStats_def g t1)
  next
    case (Inr srr)
    obtain s2 mssr where f: "fetchRepositories s1 (getSnapshots client) srr [] = (s2, mssr)"
      by (cases "fetchRepositories s1 (getSnapshots client) srr []")
    have s2: "s2 = fst (fetchRepositories s1 (getSnapshots client) srr [])" using f by simp
    have t2: "Snapshots.snapshotMetrics s2 = Snapshots.snapshotMetrics s"
      "Snapshots.repositoryMetrics s2 = Snapshots.repositoryMetrics s"
      by (simp_all add: s2 t1)
    show ?thesis
      by (simp add: Snapshots_Collect_def fetchAndDecodeSnapshotsStats_def g Inr f t2
            split: prod.splits)
  qed
  then show
    "Snapshots.snapshotMetrics (fst (Snapshots_Collect s client)) = Snapshots.snapshotMetrics s"
    "Snapshots.repositoryMetrics (fst (Snapshots_Collect s client)) = Snapshots.repositoryMetrics s"
    by simp_all
qed

lemma Snapshots_cycles_tables:
  "Snapshots.snapshotMetrics (Snapshots_cycles (NewSnapshots ns cl lg u) clients)
     = Snapshots.snapshotMetrics (NewSnapshots ns cl lg u)"
  "Snapshots.repositoryMetrics (Snapshots_cycles (NewSnapshots ns cl lg u) clients)
     = Snapshots.repositoryMetrics (NewSnapshots ns cl lg u)"
proof -
  have "\<And>s. Snapshots.snapshotMetrics (Snapshots_cycles s clients) = Snapshots.snapshotMetrics s
           \<and> Snapshots.repositoryMetrics (Snapshots_cycles s clients)
               = Snapshots.repositoryMetrics s"
    unfolding Snapshots_cycles_def
    by (induction clients) (simp_all add: Snapshots_Collect_tables)
  then show
    "Snapshots.snapshotMetrics (Snapshots_cycles (NewSnapshots ns cl lg u) clients)
       = Snapshots.snapshotMetrics (NewSnapshots ns cl lg u)"
    "Snapshots.repositoryMetrics (Snapshots_cycles (NewSnapshots ns cl lg u) clients)
       = Snapshots.repositoryMetrics (NewSnapshots ns cl lg u)"
    by simp_all
qed

lemma fetchRepositories_snd_state:
  "snd (fetchRepositories s get srr mssr) = snd (fetchRepositories s' get srr mssr)"
proof (induction srr arbitrary: s s' mssr)
  case Nil
  then show ?case by simp
next
  case (Cons r srr)
  show ?case
    using Cons.IH [of "fst (Snapshots_getAndParseURL s (get r))" _
                      "fst (Snapshots_getAndParseURL s' (get r))"]
    by (simp add: fetchRepositories_Cons Snapshots_getAndParseURL_snd
          del: fetchRepositories.simps(2))
qed

lemma fetchAndDecodeSnapshotsStats_snd:
  "snd (fetchAndDecodeSnapshotsStats s client) =
     (case fetched (getRepositories client) of
        None \<Rightarrow> Inl (projl (snd (Snapshots_getAndParseURL s (getRepositories client))))
      | Some srr \<Rightarrow> Inr (snd (fetchRepositories s (getSnapshots client) srr [])))"
proof -
  obtain s1 res where g: "Snapshots_getAndParseURL s (getRepositories client) = (s1, res)"
    by (cases "Snapshots_getAndParseURL s (getRepositories client)")
  show ?thesis
  proof (cases "fetched (getRepositories client)")
    case None
    from Snapshots_getAndParseURL_None [OF None, of s] g obtain err where "res = Inl err"
      by auto
    then show ?thesis using None g by (simp add: fetchAndDecodeSnapshotsStats_def)
  next
    case (Some srr)
    from Snapshots_getAndParseURL_Some [OF Some, of s] g have "res = Inr srr" by simp
    then show ?thesis using Some g
      fetchRepositories_snd_state [of s1 "getSnapshots client" srr "[]" s]
      by (auto simp: fetchAndDecodeSnapshotsStats_def split: prod.splits)
  qed
qed

lemma entitySamples_tables:
  "Snapshots.snapshotMetrics s' = Snapshots.snapshotMetrics s \<Longrightarrow>
   Snapshots.repositoryMetrics s' = Snapshots.repositoryMetrics s \<Longrightarrow>
   entitySamples s' = entitySamples s"
  by (rule ext) (simp add: entitySamples_def)

lemma map_Inr_projr: "\<forall>x \<in> set xs. \<not> isl x \<Longrightarrow> map Inr (map projr xs) = xs"
  by (induction xs) auto

lemma Snapshots_Collect_data:
  assumes T1: "Snapshots.snapshotMetrics s = Snapshots.snapshotMetrics (NewSnapshots ns cl lg u)"
    and T2: "Snapshots.repositoryMetrics s = Snapshots.repositoryMetrics (NewSnapshots ns cl lg u)"
    and D: "fetched (getRepositories client) = Some srr"
  shows "\<exists>data. snd (Snapshots_Collect s client)
                  = (data @ bookkeeping (fst (Snapshots_Collect s client)), None)
           \<and> map Inr data
               = concat (map (entitySamples s)
                   (snd (fetchRepositories s (getSnapshots client) srr [])))"
proof -
  let ?s0 = "s\<lparr>Snapshots.totalScrapes := Inc (Snapshots.totalScrapes s)\<rparr>"
  let ?sg = "fst (Snapshots_getAndParseURL ?s0 (getRepositories client))"
  from Snapshots_Collect_discovered [OF D, of s] obtain s1 mssr where
    f: "fetchRepositories ?sg (getSnapshots client) srr [] = (s1, mssr)" and
    c: "Snapshots_Collect s client =
             (s1\<lparr>Snapshots.up := Set_gauge (Snapshots.up s1) 1\<rparr>,
              fst (sendSnapshotsStats s1 mssr [])
                @ bookkeeping (s1\<lparr>Snapshots.up := Set_gauge (Snapshots.up s1) 1\<rparr>),
              snd (sendSnapshotsStats s1 mssr []))"
    by blast
  have s1: "s1 = fst (fetchRepositories ?sg (getSnapshots client) srr [])" using f by simp
  have t1: "Snapshots.snapshotMetrics s1 = Snapshots.snapshotMetrics s"
    and t2: "Snapshots.repositoryMetrics s1 = Snapshots.repositoryMetrics s"
    by (simp_all add: s1)
  have A: "\<forall>m \<in> set (Snapshots.repositoryMetrics s1). \<forall>r d. \<not> isl (repositorySample m r d)"
    using NewSnapshots_repositoryMetrics_total [of ns cl lg u] by (simp only: t2 T2)
  have B: "\<forall>m \<in> set (Snapshots.snapshotMetrics s1). \<forall>r d. \<not> isl (snapshotSample m r d)"
    using NewSnapshots_snapshotMetrics_total [of ns cl lg u] by (simp only: t1 T1)
  have e: "entitySamples s1 = entitySamples s" by (rule entitySamples_tables [OF t1 t2])
  have send: "sendSnapshotsStats s1 mssr [] =
                ([] @ map projr (concat (map (entitySamples s1) mssr)), None)"
    by (rule sendSnapshotsStats_total [OF A B])
  have inr: "\<forall>x \<in> set (concat (map (entitySamples s1) mssr)). \<not> isl x"
    using entitySamples_total [OF A B] by auto
  have m: "mssr = snd (fetchRepositories s (getSnapshots client) srr [])"
    using f fetchRepositories_snd_state [of ?sg "getSnapshots client" srr "[]" s] by simp
  let ?data = "map projr (concat (map (entitySamples s1) mssr))"
  have "snd (Snapshots_Collect s client)
          = (?data @ bookkeeping (fst (Snapshots_Collect s client)), None)"
    by (simp add: c send)
  moreover have "map Inr ?data = concat (map (entitySamples s) mssr)"
    using map_Inr_projr [OF inr] by (simp only: e)
  ultimately show ?thesis unfolding m by blast
qed

text \<open>
  Claim C6. For every payload of the map that \<open>fetchAndDecodeSnapshotsStats\<close> returns, the
  per-repository descriptors are applied to the payload whatever its number of snapshots,
  and the per-snapshot descriptors are applied exactly when the payload has a snapshot, to
  the last snapshot of the sequence as it is given; no sample construction panics.
\<close>

theorem latest_snapshot_descriptors:
  assumes "Snapshots.snapshotMetrics s = Snapshots.snapshotMetrics (NewSnapshots ns cl lg u)"
    and "Snapshots.repositoryMetrics s = Snapshots.repositoryMetrics (NewSnapshots ns cl lg u)"
    and "snd (fetchAndDecodeSnapshotsStats s client) = Inr mssr"
  shows "\<exists>data. snd (Snapshots_Collect s client)
                  = (data @ bookkeeping (fst (Snapshots_Collect s client)), None)
           \<and> map Inr data = concat (map (entitySamples s) mssr)"
proof (cases "fetched (getRepositories client)")
  case None
  with assms(3) show ?thesis by (simp add: fetchAndDecodeSnapshotsStats_snd)
next
  case (Some srr)
  with assms(3) have "mssr = snd (fetchRepositories s (getSnapshots client) srr [])"
    by (simp add: fetchAndDecodeSnapshotsStats_snd)
  with Snapshots_Collect_data [OF assms(1,2) Some] show ?thesis by simp
qed

lemma exampleClient_fetched:
  "fetched (getRepositories exampleClient) = Some [''a'', ''b'', ''c'', ''d'']"
  "fetchedRepositories (getSnapshots exampleClient) [''a'', ''b'', ''c'', ''d''] =
     [(''a'', \<lparr>Snapshots = [exampleSnapshot 100500 ''SUCCESS'',
                             exampleSnapshot 200700 ''PARTIAL'']\<rparr>),
      (''c'', \<lparr>Snapshots = []\<rparr>)]"
  by (simp_all add: exampleClient_def fetched_def fetchedRepositories_def ok_def status500_def
        malformed_def List.map_filter_simps)

lemma exampleClient_mapping:
  "snd (fetchAndDecodeSnapshotsStats s exampleClient) =
     Inr [(''a'', \<lparr>Snapshots = [exampleSnapshot 100500 ''SUCCESS'',
                                 exampleSnapshot 200700 ''PARTIAL'']\<rparr>),
          (''c'', \<lparr>Snapshots = []\<rparr>)]"
proof -
  have "snd (fetchRepositories s (getSnapshots exampleClient) [''a'', ''b'', ''c'', ''d''] [])
          = [] @ fetchedRepositories (getSnapshots exampleClient) [''a'', ''b'', ''c'', ''d'']"
    by (rule fetchRepositories_mapping) simp_all
  then show ?thesis
    by (simp add: fetchAndDecodeSnapshotsStats_snd exampleClient_fetched
          del: fetchRepositories.simps)
qed

theorem latest_snapshot_descriptors_witness:
  "Snapshots.snapshotMetrics exampleSnapshots
     = Snapshots.snapshotMetrics
         (NewSnapshots ''elasticsearch'' [(''cluster'', ''es'')] [] ''http://es:9200'')
   \<and> Snapshots.repositoryMetrics exampleSnapshots
     = Snapshots.repositoryMetrics
         (NewSnapshots ''elasticsearch'' [(''cluster'', ''es'')] [] ''http://es:9200'')
   \<and> snd (fetchAndDecodeSnapshotsStats exampleSnapshots exampleClient) =
       Inr [(''a'', \<lparr>Snapshots = [exampleSnapshot 100500 ''SUCCESS'',
                                   exampleSnapshot 200700 ''PARTIAL'']\<rparr>),
            (''c'', \<lparr>Snapshots = []\<rparr>)]
   \<and> (\<exists>data. snd (Snapshots_Collect exampleSnapshots exampleClient)
                  = (data @ bookkeeping (fst (Snapshots_Collect exampleSnapshots exampleClient)),
                     None)
           \<and> map Inr data
               = map (\<lambda>m. repositorySample m ''a''
                             \<lparr>Snapshots = [exampleSnapshot 100500 ''SUCCESS'',
                                           exampleSnapshot 200700 ''PARTIAL'']\<rparr>)
                   (Snapshots.repositoryMetrics exampleSnapshots)
                 @ map (\<lambda>m. snapshotSample m ''a'' (exampleSnapshot 200700 ''PARTIAL''))
                     (Snapshots.snapshotMetrics exampleSnapshots)
                 @ map (\<lambda>m. repositorySample m ''c'' \<lparr>Snapshots = []\<rparr>)
                     (Snapshots.repositoryMetrics exampleSnapshots))"
  using latest_snapshot_descriptors
    [of exampleSnapshots "''elasticsearch''" "[(''cluster'', ''es'')]" "[]" "''http://es:9200''"
        exampleClient
        "[(''a'', \<lparr>Snapshots = [exampleSnapshot 100500 ''SUCCESS'',
                                  exampleSnapshot 200700 ''PARTIAL'']\<rparr>),
          (''c'', \<lparr>Snapshots = []\<rparr>)]"]
  by (simp add: exampleClient_mapping entitySamples_pair)
     (simp add: exampleSnapshots_def)

lemma length_concat_entitySamples:
  "length (concat (map (entitySamples s) mssr)) =
     length (Snapshots.repositoryMetrics s) * length mssr
     + length (Snapshots.snapshotMetrics s)
       * length (filter (\<lambda>e. Snapshots (snd e) \<noteq> []) mssr)"
  by (induction mssr) (simp_all add: entitySamples_def algebra_simps)

lemma length_fetchedRepositories:
  "length (fetchedRepositories get srr) = length (filter (\<lambda>r. fetched (get r) \<noteq> None) srr)"
  by (induction srr) (auto simp: fetchedRepositories_Cons split: option.splits)

lemma length_fetchedRepositories_nonempty:
  "length (filter (\<lambda>e. Snapshots (snd e) \<noteq> []) (fetchedRepositories get srr)) =
     length (filter (\<lambda>r. case fetched (get r) of None \<Rightarrow> False
                          | Some d \<Rightarrow> Snapshots d \<noteq> []) srr)"
  by (induction srr) (auto simp: fetchedRepositories_Cons split: option.splits)

lemma entitySamples_repository_label:
  assumes T1: "Snapshots.snapshotMetrics s = Snapshots.snapshotMetrics (NewSnapshots ns cl lg u)"
    and T2: "Snapshots.repositoryMetrics s = Snapshots.repositoryMetrics (NewSnapshots ns cl lg u)"
    and m: "Inr m \<in> set (entitySamples s e)"
  shows "labelValue m ''repository'' = Some (fst e)"
proof -
  have r: "\<And>metric d. metric \<in> set (Snapshots.repositoryMetrics (NewSnapshots ns cl lg u)) \<Longrightarrow>
             repositorySample metric (fst e) d = Inr m \<Longrightarrow>
             labelValue m ''repository'' = Some (fst e)"
    by (auto simp: NewSnapshots_def repositorySample_def MustNewConstMetric_def NewDesc_def
          labelValue_def defaultSnapshotRepositoryLabels_def
          defaultSnapshotRepositoryLabelValues_def split: sum.splits if_splits)
  have q: "\<And>metric d. metric \<in> set (Snapshots.snapshotMetrics (NewSnapshots ns cl lg u)) \<Longrightarrow>
             snapshotSample metric (fst e) d = Inr m \<Longrightarrow>
             labelValue m ''repository'' = Some (fst e)"
    by (auto simp: NewSnapshots_def snapshotSample_def MustNewConstMetric_def NewDesc_def
          labelValue_def defaultSnapshotLabels_def defaultSnapshotLabelValues_def
          split: sum.splits if_splits)
  from m show ?thesis
    unfolding entitySamples_def T1 T2
    by (auto dest: r q split: if_splits)
qed

text \<open>
  Claim C4. When the discovery gives the repositories \<open>srr\<close>, the number of data samples
  is the number of per-repository descriptors times the number of repositories whose detail
  fetch succeeds, plus the number of per-snapshot descriptors times the number of those
  whose payload has a snapshot; the repository label of every data sample is a discovered
  repository, and the bookkeeping samples carry no label value.
\<close>

theorem sample_count_and_entities:
  assumes "Snapshots.snapshotMetrics s = Snapshots.snapshotMetrics (NewSnapshots ns cl lg u)"
    and "Snapshots.repositoryMetrics s = Snapshots.repositoryMetrics (NewSnapshots ns cl lg u)"
    and "fetched (getRepositories client) = Some srr"
    and "distinct srr"
  shows "\<exists>data. snd (Snapshots_Collect s client)
                  = (data @ bookkeeping (fst (Snapshots_Collect s client)), None)
           \<and> length data
               = length (Snapshots.repositoryMetrics s)
                   * length (filter (\<lambda>r. fetched (getSnapshots client r) \<noteq> None) srr)
                 + length (Snapshots.snapshotMetrics s)
                   * length (filter (\<lambda>r. case fetched (getSnapshots client r) of
                                           None \<Rightarrow> False
                                         | Some d \<Rightarrow> Snapshots d \<noteq> []) srr)
           \<and> length (filter (\<lambda>r. fetched (getSnapshots client r) \<noteq> None) srr) \<le> length srr
           \<and> (\<forall>m \<in> set data. \<exists>r \<in> set srr. labelValue m ''repository'' = Some r)
           \<and> (\<forall>m \<in> set (bookkeeping (fst (Snapshots_Collect s client))).
                  mLabelValues m = [])"
proof -
  let ?get = "getSnapshots client"
  have mp: "snd (fetchRepositories s ?get srr []) = fetchedRepositories ?get srr"
    using fetchRepositories_mapping [OF assms(4), of "[]" s ?get] by simp
  from Snapshots_Collect_data [OF assms(1,2,3)] obtain data where
    out: "snd (Snapshots_Collect s client)
            = (data @ bookkeeping (fst (Snapshots_Collect s client)), None)" and
    data: "map Inr data = concat (map (entitySamples s) (fetchedRepositories ?get srr))"
    unfolding mp by blast
  have "length data = length (map Inr data :: (panic + Metric) list)" by simp
  also have "\<dots> = length (Snapshots.repositoryMetrics s)
                   * length (filter (\<lambda>r. fetched (?get r) \<noteq> None) srr)
                 + length (Snapshots.snapshotMetrics s)
                   * length (filter (\<lambda>r. case fetched (?get r) of
                                           None \<Rightarrow> False
                                         | Some d \<Rightarrow> Snapshots d \<noteq> []) srr)"
    unfolding data
    by (simp only: length_concat_entitySamples length_fetchedRepositories
          length_fetchedRepositories_nonempty)
  finally have len: "length data = length (Snapshots.repositoryMetrics s)
                   * length (filter (\<lambda>r. fetched (?get r) \<noteq> None) srr)
                 + length (Snapshots.snapshotMetrics s)
                   * length (filter (\<lambda>r. case fetched (?get r) of
                                           None \<Rightarrow> False
                                         | Some d \<Rightarrow> Snapshots d \<noteq> []) srr)" .
  have lab: "\<forall>m \<in> set data. \<exists>r \<in> set srr. labelValue m ''repository'' = Some r"
  proof
    fix m assume "m \<in> set data"
    then have "Inr m \<in> set (map Inr data :: (panic + Metric) list)" by simp
    then obtain e where e: "e \<in> set (fetchedRepositories ?get srr)"
      and m: "Inr m \<in> set (entitySamples s e)"
      unfolding data by auto
    have "labelValue m ''repository'' = Some (fst e)"
      by (rule entitySamples_repository_label [OF assms(1,2) m])
    moreover have "fst e \<in> set srr" using e fetchedRepositories_keys [of ?get srr] by auto
    ultimately show "\<exists>r \<in> set srr. labelValue m ''repository'' = Some r" by blast
  qed
  have bk: "\<forall>m \<in> set (bookkeeping (fst (Snapshots_Collect s client))). mLabelValues m = []"
    by (simp add: bookkeeping_def sample_def)
  from out len lab bk show ?thesis by (intro exI [of _ data]) simp
qed

lemma exampleSnapshots_tables:
  "Snapshots.snapshotMetrics exampleSnapshots
     = Snapshots.snapshotMetrics
         (NewSnapshots ''elasticsearch'' [(''cluster'', ''es'')] [] ''http://es:9200'')"
  "Snapshots.repositoryMetrics exampleSnapshots
     = Snapshots.repositoryMetrics
         (NewSnapshots ''elasticsearch'' [(''cluster'', ''es'')] [] ''http://es:9200'')"
  by (simp_all add: exampleSnapshots_def)

theorem sample_count_and_entities_witness:
  "Snapshots.snapshotMetrics exampleSnapshots
     = Snapshots.snapshotMetrics
         (NewSnapshots ''elasticsearch'' [(''cluster'', ''es'')] [] ''http://es:9200'')
   \<and> Snapshots.repositoryMetrics exampleSnapshots
     = Snapshots.repositoryMetrics
         (NewSnapshots ''elasticsearch'' [(''cluster'', ''es'')] [] ''http://es:9200'')
   \<and> fetched (getRepositories exampleClient) = Some [''a'', ''b'', ''c'', ''d'']
   \<and> distinct [''a'', ''b'', ''c'', ''d'']
   \<and> (\<exists>data. snd (Snapshots_Collect exampleSnapshots exampleClient)
                  = (data @ bookkeeping (fst (Snapshots_Collect exampleSnapshots exampleClient)),
                     None)
           \<and> length data = 11
           \<and> labelValue (hd data) ''repository''
               \<in> {Some ''a'', Some ''b'', Some ''c'', Some ''d''})"
proof -
  have d: "distinct [''a'', ''b'', ''c'', ''d'']" by simp
  from sample_count_and_entities
         [OF exampleSnapshots_tables exampleClient_fetched(1) d]
  obtain data where
    out: "snd (Snapshots_Collect exampleSnapshots exampleClient)
            = (data @ bookkeeping (fst (Snapshots_Collect exampleSnapshots exampleClient)), None)"
    and len: "length data
               = length (Snapshots.repositoryMetrics exampleSnapshots)
                   * length (filter (\<lambda>r. fetched (getSnapshots exampleClient r) \<noteq> None)
                       [''a'', ''b'', ''c'', ''d''])
                 + length (Snapshots.snapshotMetrics exampleSnapshots)
                   * length (filter (\<lambda>r. case fetched (getSnapshots exampleClient r) of
                                           None \<Rightarrow> False
                                         | Some d \<Rightarrow> Snapshots d \<noteq> [])
                       [''a'', ''b'', ''c'', ''d''])"
    and lab: "\<forall>m \<in> set data. \<exists>r \<in> set [''a'', ''b'', ''c'', ''d''].
                 labelValue m ''repository'' = Some r"
    by blast
  have l11: "length data = 11"
    unfolding len
    by (simp add: exampleSnapshots_def NewSnapshots_def exampleClient_def fetched_def ok_def
          status500_def malformed_def)
  then have "hd data \<in> set data" by (cases data) simp_all
  with lab have "labelValue (hd data) ''repository''
               \<in> {Some ''a'', Some ''b'', Some ''c'', Some ''d''}"
    by auto
  with out l11 exampleSnapshots_tables exampleClient_fetched(1) d show ?thesis by blast
qed

lemma map_of_fetchedRepositories:
  "map_of (fetchedRepositories get srr) r = (if r \<in> set srr then fetched (get r) else None)"
  by (induction srr) (auto simp: fetchedRepositories_Cons split: option.splits)

lemma Snapshots_Collect_logger:
  assumes "fetched (getRepositories client) = Some srr"
  shows "Snapshots.logger (fst (Snapshots_Collect s client)) =
           Snapshots.logger s @ closeWarnings (getRepositories client)
           @ concat (map (\<lambda>r. closeWarnings (getSnapshots client r)) srr)"
proof -
  let ?s0 = "s\<lparr>Snapshots.totalScrapes := Inc (Snapshots.totalScrapes s)\<rparr>"
  let ?sg = "fst (Snapshots_getAndParseURL ?s0 (getRepositories client))"
  from Snapshots_Collect_discovered [OF assms, of s] obtain s1 mssr where
    f: "fetchRepositories ?sg (getSnapshots client) srr [] = (s1, mssr)" and
    c: "fst (Snapshots_Collect s client) = s1\<lparr>Snapshots.up := Set_gauge (Snapshots.up s1) 1\<rparr>"
    by auto
  have "Snapshots.logger s1 = Snapshots.logger ?sg
          @ concat (map (\<lambda>r. closeWarnings (getSnapshots client r)) srr)"
    using fetchRepositories_logger [of ?sg "getSnapshots client" srr "[]"] f by simp
  then show ?thesis by (simp add: c)
qed

text \<open>
  Claim C5, as amended. A repository whose detail fetch or decoding fails is left out of the
  result map and nothing is logged for the failure: the log of the cycle grows only by the
  warnings for response bodies that could not be closed. The failure stops neither the
  other fetches nor the cycle: \<open>up\<close> is 1 and the data samples are those of the
  repositories whose fetch succeeded.
\<close>

theorem failed_entity_dropped_without_log:
  assumes "Snapshots.snapshotMetrics s = Snapshots.snapshotMetrics (NewSnapshots ns cl lg u)"
    and "Snapshots.repositoryMetrics s = Snapshots.repositoryMetrics (NewSnapshots ns cl lg u)"
    and "fetched (getRepositories client) = Some srr"
    and "distinct srr"
  shows "snd (fetchAndDecodeSnapshotsStats s client)
           = Inr (fetchedRepositories (getSnapshots client) srr)
         \<and> (\<forall>r \<in> set srr. map_of (fetchedRepositories (getSnapshots client) srr) r
                            = fetched (getSnapshots client r))
         \<and> Snapshots.logger (fst (Snapshots_Collect s client))
             = Snapshots.logger s @ closeWarnings (getRepositories client)
               @ concat (map (\<lambda>r. closeWarnings (getSnapshots client r)) srr)
         \<and> gVal (Snapshots.up (fst (Snapshots_Collect s client))) = 1
         \<and> (\<exists>data. snd (Snapshots_Collect s client)
                      = (data @ bookkeeping (fst (Snapshots_Collect s client)), None)
               \<and> map Inr data
                   = concat (map (entitySamples s)
                       (fetchedRepositories (getSnapshots client) srr)))"
proof -
  let ?get = "getSnapshots client"
  have mp: "snd (fetchRepositories s ?get srr []) = fetchedRepositories ?get srr"
    using fetchRepositories_mapping [OF assms(4), of "[]" s ?get] by simp
  have 1: "snd (fetchAndDecodeSnapshotsStats s client) = Inr (fetchedRepositories ?get srr)"
    by (simp add: fetchAndDecodeSnapshotsStats_snd assms(3) mp)
  have 2: "\<forall>r \<in> set srr. map_of (fetchedRepositories ?get srr) r = fetched (?get r)"
    by (simp add: map_of_fetchedRepositories)
  have 3: "Snapshots.logger (fst (Snapshots_Collect s client))
             = Snapshots.logger s @ closeWarnings (getRepositories client)
               @ concat (map (\<lambda>r. closeWarnings (?get r)) srr)"
    by (rule Snapshots_Collect_logger [OF assms(3)])
  have 4: "gVal (Snapshots.up (fst (Snapshots_Collect s client))) = 1"
    by (simp add: Snapshots_Collect_up assms(3))
  have 5: "\<exists>data. snd (Snapshots_Collect s client)
                      = (data @ bookkeeping (fst (Snapshots_Collect s client)), None)
               \<and> map Inr data
                   = concat (map (entitySamples s) (fetchedRepositories ?get srr))"
    using Snapshots_Collect_data [OF assms(1,2,3)] unfolding mp .
  from 1 2 3 4 5 show ?thesis by blast
qed

theorem failed_entity_dropped_without_log_witness:
  "Snapshots.snapshotMetrics exampleSnapshots
     = Snapshots.snapshotMetrics
         (NewSnapshots ''elasticsearch'' [(''cluster'', ''es'')] [] ''http://es:9200'')
   \<and> Snapshots.repositoryMetrics exampleSnapshots
     = Snapshots.repositoryMetrics
         (NewSnapshots ''elasticsearch'' [(''cluster'', ''es'')] [] ''http://es:9200'')
   \<and> fetched (getRepositories exampleClient) = Some [''a'', ''b'', ''c'', ''d'']
   \<and> distinct [''a'', ''b'', ''c'', ''d'']
   \<and> snd (fetchAndDecodeSnapshotsStats exampleSnapshots exampleClient) =
       Inr [(''a'', \<lparr>Snapshots = [exampleSnapshot 100500 ''SUCCESS'',
                                   exampleSnapshot 200700 ''PARTIAL'']\<rparr>),
            (''c'', \<lparr>Snapshots = []\<rparr>)]
   \<and> fetched (getSnapshots exampleClient ''b'') = None
   \<and> map_of (fetchedRepositories (getSnapshots exampleClient) [''a'', ''b'', ''c'', ''d''])
         ''b'' = None
   \<and> map_of (fetchedRepositories (getSnapshots exampleClient) [''a'', ''b'', ''c'', ''d''])
         ''c'' = Some \<lparr>Snapshots = []\<rparr>
   \<and> gVal (Snapshots.up (fst (Snapshots_Collect exampleSnapshots exampleClient))) = 1"
proof -
  have d: "distinct [''a'', ''b'', ''c'', ''d'']" by simp
  have b: "fetched (getSnapshots exampleClient ''b'') = None"
    and c: "fetched (getSnapshots exampleClient ''c'') = Some \<lparr>Snapshots = []\<rparr>"
    by (simp_all add: exampleClient_def fetched_def ok_def status500_def)
  from failed_entity_dropped_without_log
         [OF exampleSnapshots_tables exampleClient_fetched(1) d]
  have 1: "snd (fetchAndDecodeSnapshotsStats exampleSnapshots exampleClient)
           = Inr (fetchedRepositories (getSnapshots exampleClient) [''a'', ''b'', ''c'', ''d''])"
    and 2: "\<forall>r \<in> set [''a'', ''b'', ''c'', ''d''].
              map_of (fetchedRepositories (getSnapshots exampleClient)
                        [''a'', ''b'', ''c'', ''d'']) r
                = fetched (getSnapshots exampleClient r)"
    and 3: "gVal (Snapshots.up (fst (Snapshots_Collect exampleSnapshots exampleClient))) = 1"
    by blast+
  from 2 b c have
    "map_of (fetchedRepositories (getSnapshots exampleClient) [''a'', ''b'', ''c'', ''d''])
         ''b'' = None"
    "map_of (fetchedRepositories (getSnapshots exampleClient) [''a'', ''b'', ''c'', ''d''])
         ''c'' = Some \<lparr>Snapshots = []\<rparr>"
    by simp_all
  with 1 3 b exampleSnapshots_tables exampleClient_fetched d show ?thesis by simp
qed

theorem failed_entity_not_logged_counterexample:
  "fetched (getSnapshots exampleClient ''b'') = None
   \<and> fetched (getSnapshots exampleClient ''d'') = None
   \<and> Snapshots.logger exampleSnapshots = []
   \<and> Snapshots.logger (fst (Snapshots_Collect exampleSnapshots exampleClient)) = []"
  by (simp add: Snapshots_Collect_logger [OF exampleClient_fetched(1)])
     (simp add: exampleClient_def exampleSnapshots_def NewSnapshots_def fetched_def
        closeWarnings_def ok_def status500_def malformed_def)

lemma IndicesSettings_Collect_failed:
  assumes "fetched got = None"
  shows "snd (IndicesSettings_Collect cs got) = []"
proof -
  let ?cs0 = "cs\<lparr>IndicesSettings.totalScrapes :=
                   Inc_child (IndicesSettings.totalScrapes cs) [IndicesSettings.url cs]\<rparr>"
  obtain cs1 res where g: "IndicesSettings_getAndParseURL ?cs0 got = (cs1, res)"
    by (cases "IndicesSettings_getAndParseURL ?cs0 got")
  from IndicesSettings_getAndParseURL_isl [of ?cs0 got] g assms obtain err where "res = Inl err"
    by (cases res) simp_all
  then show ?thesis
    by (simp add: IndicesSettings_Collect_def fetchAndDecodeIndicesSettings_def g)
qed

text \<open>
  Claim C1. On a failed discovery \<open>Collect\<close> of the snapshots collector sends exactly the
  three bookkeeping samples, with \<open>up\<close> at 0. \<open>Collect\<close> of the indices settings collector
  has no deferred function and returns before anything is sent: evaluated on an answer with
  status 500, after \<open>Describe\<close> has created the children of its vectors, it sends nothing,
  although \<open>up\<close> has been set to 0 and the scrape has been counted.
\<close>

theorem IndicesSettings_failed_fetch_sends_nothing:
  "fetched (Inr status500 :: IndicesSettingsResponse GetResult) = None
   \<and> snd (IndicesSettings_Collect (fst (IndicesSettings_Describe exampleIndicesSettings))
            (Inr status500)) = []
   \<and> childValue (IndicesSettings.up
         (fst (IndicesSettings_Collect (fst (IndicesSettings_Describe exampleIndicesSettings))
                 (Inr status500)))) [''http://es:9200''] = 0
   \<and> childValue (IndicesSettings.totalScrapes
         (fst (IndicesSettings_Collect (fst (IndicesSettings_Describe exampleIndicesSettings))
                 (Inr status500)))) [''http://es:9200''] = 1
   \<and> map mValue (fst (snd (Snapshots_Collect exampleSnapshots
         \<lparr>getRepositories = Inr status500, getSnapshots = (\<lambda>r. Inr status500)\<rparr>)))
       = [0, 1, 0]"
proof -
  have f: "fetched (Inr status500 :: IndicesSettingsResponse GetResult) = None"
    by (simp add: fetched_def status500_def)
  have 1: "snd (IndicesSettings_Collect (fst (IndicesSettings_Describe exampleIndicesSettings))
            (Inr status500)) = []"
    by (rule IndicesSettings_Collect_failed [OF f])
  have 2: "childValue (IndicesSettings.up
         (fst (IndicesSettings_Collect (fst (IndicesSettings_Describe exampleIndicesSettings))
                 (Inr status500)))) [''http://es:9200''] = 0"
    using IndicesSettings_Collect_fields(2)
            [of "fst (IndicesSettings_Describe exampleIndicesSettings)" "Inr status500"] f
    by (simp add: IndicesSettings_Describe_def exampleIndicesSettings_def NewIndicesSettings_def)
  have 3: "childValue (IndicesSettings.totalScrapes
         (fst (IndicesSettings_Collect (fst (IndicesSettings_Describe exampleIndicesSettings))
                 (Inr status500)))) [''http://es:9200''] = 1"
    by (simp add: IndicesSettings_Collect_def fetchAndDecodeIndicesSettings_def
          IndicesSettings_getAndParseURL_def IndicesSettings_closeBody_def
          IndicesSettings_Describe_def exampleIndicesSettings_def NewIndicesSettings_def
          NewVec_def WithLabelValues_def Inc_child_def Set_child_def childValue_def
          status500_def)
  have 4: "map mValue (fst (snd (Snapshots_Collect exampleSnapshots
         \<lparr>getRepositories = Inr status500, getSnapshots = (\<lambda>r. Inr status500)\<rparr>)))
       = [0, 1, 0]"
    by (simp add: Snapshots_Collect_def fetchAndDecodeSnapshotsStats_def
          Snapshots_getAndParseURL_def Snapshots_closeBody_def exampleSnapshots_def
          NewSnapshots_def NewGauge_def Inc_def Set_gauge_def sample_def status500_def)
  from f 1 2 3 4 show ?thesis by blast
qed

text \<open>
  Claim C2. \<open>Describe\<close> of the snapshots collector sends the descriptors of the table
  \<open>snapshotMetrics\<close> and the three bookkeeping descriptors, ten in all, and none of the
  table \<open>repositoryMetrics\<close>, whose samples \<open>Collect\<close> sends.
\<close>

theorem Describe_omits_repositoryMetrics:
  "length (Snapshots_Describe exampleSnapshots) = 10
   \<and> map fqName (map repositoryMetric.Desc (Snapshots.repositoryMetrics exampleSnapshots))
       = [''elasticsearch_snapshot_stats_number_of_snapshots'',
          ''elasticsearch_snapshot_stats_oldest_snapshot_timestamp'']
   \<and> set (map repositoryMetric.Desc (Snapshots.repositoryMetrics exampleSnapshots))
       \<inter> set (Snapshots_Describe exampleSnapshots) = {}
   \<and> map fqName (Snapshots_Describe exampleSnapshots)
       = [''elasticsearch_snapshot_stats_snapshot_number_of_indices'',
          ''elasticsearch_snapshot_stats_snapshot_start_time_timestamp'',
          ''elasticsearch_snapshot_stats_snapshot_end_time_timestamp'',
          ''elasticsearch_snapshot_stats_snapshot_number_of_failures'',
          ''elasticsearch_snapshot_stats_snapshot_total_shards'',
          ''elasticsearch_snapshot_stats_snapshot_failed_shards'',
          ''elasticsearch_snapshot_stats_snapshot_successful_shards'',
          ''elasticsearch_snapshot_stats_up'',
          ''elasticsearch_snapshot_stats_total_scrapes'',
          ''elasticsearch_snapshot_stats_json_parse_failures'']
   \<and> mDesc (hd (fst (snd (Snapshots_Collect exampleSnapshots exampleClient))))
       = repositoryMetric.Desc (hd (Snapshots.repositoryMetrics exampleSnapshots))"
proof -
  have 1: "length (Snapshots_Describe exampleSnapshots) = 10"
    by (simp add: Snapshots_Describe_def exampleSnapshots_def NewSnapshots_def)
  have 2: "map fqName (map repositoryMetric.Desc (Snapshots.repositoryMetrics exampleSnapshots))
       = [''elasticsearch_snapshot_stats_number_of_snapshots'',
          ''elasticsearch_snapshot_stats_oldest_snapshot_timestamp'']"
    by (simp add: exampleSnapshots_def NewSnapshots_def NewDesc_def BuildFQName_def)
  have 3: "set (map repositoryMetric.Desc (Snapshots.repositoryMetrics exampleSnapshots))
       \<inter> set (Snapshots_Describe exampleSnapshots) = {}"
    by (simp add: Snapshots_Describe_def exampleSnapshots_def NewSnapshots_def NewGauge_def
          NewDesc_def BuildFQName_def)
  have 4: "map fqName (Snapshots_Describe exampleSnapshots)
       = [''elasticsearch_snapshot_stats_snapshot_number_of_indices'',
          ''elasticsearch_snapshot_stats_snapshot_start_time_timestamp'',
          ''elasticsearch_snapshot_stats_snapshot_end_time_timestamp'',
          ''elasticsearch_snapshot_stats_snapshot_number_of_failures'',
          ''elasticsearch_snapshot_stats_snapshot_total_shards'',
          ''elasticsearch_snapshot_stats_snapshot_failed_shards'',
          ''elasticsearch_snapshot_stats_snapshot_successful_shards'',
          ''elasticsearch_snapshot_stats_up'',
          ''elasticsearch_snapshot_stats_total_scrapes'',
          ''elasticsearch_snapshot_stats_json_parse_failures'']"
    by (simp add: Snapshots_Describe_def exampleSnapshots_def NewSnapshots_def NewGauge_def
          NewDesc_def BuildFQName_def)
  have mp: "snd (fetchRepositories exampleSnapshots (getSnapshots exampleClient)
                   [''a'', ''b'', ''c'', ''d''] [])
              = [] @ fetchedRepositories (getSnapshots exampleClient) [''a'', ''b'', ''c'', ''d'']"
    by (rule fetchRepositories_mapping) simp_all
  from Snapshots_Collect_data [OF exampleSnapshots_tables exampleClient_fetched(1)]
  obtain data where
    out: "snd (Snapshots_Collect exampleSnapshots exampleClient)
            = (data @ bookkeeping (fst (Snapshots_Collect exampleSnapshots exampleClient)), None)"
    and data: "map Inr data
                 = concat (map (entitySamples exampleSnapshots)
                     ([] @ fetchedRepositories (getSnapshots exampleClient)
                             [''a'', ''b'', ''c'', ''d'']))"
    unfolding mp by blast
  have d2: "data = map projr (concat (map (entitySamples exampleSnapshots)
                 (fetchedRepositories (getSnapshots exampleClient)
                    [''a'', ''b'', ''c'', ''d''])))"
    using arg_cong [OF data, of "map projr"] by (simp add: comp_def)
  have 5: "mDesc (hd (fst (snd (Snapshots_Collect exampleSnapshots exampleClient))))
       = repositoryMetric.Desc (hd (Snapshots.repositoryMetrics exampleSnapshots))"
    by (simp add: out d2 exampleClient_fetched(2) entitySamples_pair)
       (simp add: exampleSnapshots_def NewSnapshots_def repositorySample_def
          number_of_snapshots_def MustNewConstMetric_def NewDesc_def
          defaultSnapshotRepositoryLabels_def defaultSnapshotRepositoryLabelValues_def)
  from 1 2 3 4 5 show ?thesis by blast
qed

end
